theory Spec2Isabelle
  imports Complex_Main
begin

section \<open>Shared data: accounts, tokens, requests and responses\<close>

text \<open>
  The backend is an Express application. A middleware or handler either sends a JSON
  response or calls \<^verbatim>\<open>next()\<close>; a handler whose \<^verbatim>\<open>try\<close> block throws
  calls \<^verbatim>\<open>next(error)\<close>. Timestamps are milliseconds (\<^typ>\<open>nat\<close>). Roles and status
  values are the strings the code compares with \<^verbatim>\<open>===\<close>.
\<close>

text \<open>
  An account document of the \<^verbatim>\<open>User\<close> collection, with the fields the sources read
  or write (\<^verbatim>\<open>_id\<close> is \<open>uid\<close>, \<^verbatim>\<open>analytics.lastActiveAt\<close> is \<open>lastActiveAt\<close>).
\<close>

record user =
  uid :: string
  name :: string
  email :: string
  password :: string
  phone :: "string option"
  role :: string
  status :: string
  loginAttempts :: nat
  lockUntil :: "nat option"
  lastLogin :: "nat option"
  lastActiveAt :: "nat option"
  avatar :: "string option"
  preferences :: string

text \<open>A thrown JavaScript error: the handlers only look at its \<^verbatim>\<open>name\<close> and \<^verbatim>\<open>message\<close>.\<close>

record exn =
  ename :: string
  emessage :: string

text \<open>
  The file \<^verbatim>\<open>models/User.js\<close> is not among the sources, so what the handlers call on
  a \<^verbatim>\<open>User\<close> document is a parameter: the methods \<^verbatim>\<open>comparePassword\<close>,
  \<^verbatim>\<open>incLoginAttempts\<close> and \<^verbatim>\<open>resetLoginAttempts\<close>, the virtual \<^verbatim>\<open>isLocked\<close>,
  the document \<^verbatim>\<open>new User({})\<close> starts from (schema defaults and a fresh \<^verbatim>\<open>_id\<close>),
  the password hashing of the pre-save hook, and the schema validation that
  \<^verbatim>\<open>save()\<close> runs (\<open>None\<close> when the document passes).
\<close>

record user_model =
  comparePassword :: "user \<Rightarrow> string \<Rightarrow> bool"
  isLocked :: "user \<Rightarrow> bool"
  incLoginAttempts :: "user \<Rightarrow> user"
  resetLoginAttempts :: "user \<Rightarrow> user"
  blank_user :: user
  hashPassword :: "string \<Rightarrow> string"
  validate :: "user \<Rightarrow> exn option"

text \<open>The decoded payload of a bearer token (\<^verbatim>\<open>jwt.verify\<close>'s result).\<close>

record payload =
  p_userId :: string
  p_role :: string
  p_isGuest :: bool

text \<open>
  The identity context a gate attaches as \<^verbatim>\<open>req.user\<close>. The guest branch sets
  \<^verbatim>\<open>userId\<close>, \<^verbatim>\<open>role\<close> and \<^verbatim>\<open>isGuest\<close> only; the optional gate leaves
  \<^verbatim>\<open>status\<close> and \<^verbatim>\<open>preferences\<close> out.
\<close>

record identity =
  userId :: string
  ctx_email :: "string option"
  ctx_name :: "string option"
  ctx_role :: string
  ctx_status :: "string option"
  ctx_preferences :: "string option"
  isGuest :: bool

record request =
  authorization :: "string option"
  req_user :: "identity option"

text \<open>
  The JSON envelope with its HTTP status. \<open>errors\<close> is the validator's error array
  (empty when the field is absent), \<open>detail\<close> the \<^verbatim>\<open>error\<close> field that only the
  development mode fills, \<open>data\<close> the handler's payload.
\<close>

record 'd response =
  status_code :: nat
  success :: bool
  message :: "string option"
  errors :: "string list"
  detail :: "string option"
  data :: "'d option"

definition fail_json :: "nat \<Rightarrow> string \<Rightarrow> 'd response" where
  "fail_json code msg =
     \<lparr>status_code = code, success = False, message = Some msg, errors = [],
      detail = None, data = None\<rparr>"

definition validation_failed :: "string list \<Rightarrow> 'd response" where
  "validation_failed errs =
     \<lparr>status_code = 400, success = False, message = Some ''Validation failed'',
      errors = errs, detail = None, data = None\<rparr>"

datatype outcome = Next request | Respond "unit response"

section \<open>Auth gate and role gates\<close>

text \<open>
  What the middleware file takes from outside: \<^verbatim>\<open>jwt.verify\<close> with the configured
  secret (it throws \<^verbatim>\<open>JsonWebTokenError\<close>, \<^verbatim>\<open>TokenExpiredError\<close> or another error),
  \<^verbatim>\<open>User.findById\<close> (it may throw as well), the \<^verbatim>\<open>User\<close> model (for its
  \<^verbatim>\<open>isLocked\<close> virtual, evaluated at the time of the request), and whether
  \<^verbatim>\<open>NODE_ENV\<close> is \<^verbatim>\<open>development\<close>.
\<close>

record auth_env =
  jwt_verify :: "string \<Rightarrow> exn + payload"
  findById :: "string \<Rightarrow> exn + user option"
  users :: user_model
  development :: bool

text \<open>
  \<^verbatim>\<open>authHeader && authHeader.startsWith('Bearer ') ? authHeader.substring(7) : null\<close>
\<close>

definition bearer_token :: "string option \<Rightarrow> string option" where
  "bearer_token authHeader =
     (case authHeader of
        None \<Rightarrow> None
      | Some h \<Rightarrow> if take 7 h = ''Bearer '' then Some (drop 7 h) else None)"

text \<open>The \<^verbatim>\<open>catch\<close> block of \<^verbatim>\<open>authMiddleware\<close>.\<close>

definition auth_catch :: "auth_env \<Rightarrow> exn \<Rightarrow> outcome" where
  "auth_catch E err =
     (if ename err = ''JsonWebTokenError'' then Respond (fail_json 401 ''Invalid token.'')
      else if ename err = ''TokenExpiredError''
        then Respond (fail_json 401 ''Token expired. Please login again.'')
      else Respond ((fail_json 500 ''Server error in authentication.'')
             \<lparr>detail := (if development E then Some (emessage err) else None)\<rparr>))"

definition guest_identity :: "payload \<Rightarrow> identity" where
  "guest_identity decoded =
     \<lparr>userId = p_userId decoded, ctx_email = None, ctx_name = None, ctx_role = ''guest'',
      ctx_status = None, ctx_preferences = None, isGuest = True\<rparr>"

definition user_identity :: "user \<Rightarrow> identity" where
  "user_identity u =
     \<lparr>userId = uid u, ctx_email = Some (email u), ctx_name = Some (name u),
      ctx_role = role u, ctx_status = Some (status u),
      ctx_preferences = Some (preferences u), isGuest = False\<rparr>"

text \<open>
  \<^verbatim>\<open>authMiddleware\<close>. An empty token (\<^verbatim>\<open>"Bearer "\<close> alone) is falsy, so
  \<^verbatim>\<open>!token\<close> holds for it as for \<^verbatim>\<open>null\<close>.
\<close>

definition authMiddleware :: "auth_env \<Rightarrow> request \<Rightarrow> outcome" where
  "authMiddleware E req =
     (case bearer_token (authorization req) of
        None \<Rightarrow> Respond (fail_json 401 ''Access denied. No token provided.'')
      | Some token \<Rightarrow>
          if token = [] then Respond (fail_json 401 ''Access denied. No token provided.'')
          else
            (case jwt_verify E token of
               Inl err \<Rightarrow> auth_catch E err
             | Inr decoded \<Rightarrow>
                 if p_isGuest decoded
                 then Next (req\<lparr>req_user := Some (guest_identity decoded)\<rparr>)
                 else
                   (case findById E (p_userId decoded) of
                      Inl err \<Rightarrow> auth_catch E err
                    | Inr None \<Rightarrow>
                        Respond (fail_json 401 ''Token is not valid. User not found.'')
                    | Inr (Some u) \<Rightarrow>
                        if status u \<noteq> ''active''
                        then Respond (fail_json 403
                               ''Account is not active. Please contact support.'')
                        else if isLocked (users E) u
                        then Respond (fail_json 423 ''Account is temporarily locked.'')
                        else Next (req\<lparr>req_user := Some (user_identity u)\<rparr>))))"

text \<open>\<^verbatim>\<open>adminMiddleware\<close> and \<^verbatim>\<open>superAdminMiddleware\<close>: they read \<^verbatim>\<open>req.user\<close> only.\<close>

definition adminMiddleware :: "request \<Rightarrow> outcome" where
  "adminMiddleware req =
     (case req_user req of
        None \<Rightarrow> Respond (fail_json 403 ''Access denied. Admin privileges required.'')
      | Some u \<Rightarrow>
          if ctx_role u = ''admin'' \<or> ctx_role u = ''super_admin'' then Next req
          else Respond (fail_json 403 ''Access denied. Admin privileges required.''))"

definition superAdminMiddleware :: "request \<Rightarrow> outcome" where
  "superAdminMiddleware req =
     (case req_user req of
        None \<Rightarrow> Respond (fail_json 403 ''Access denied. Super admin privileges required.'')
      | Some u \<Rightarrow>
          if ctx_role u = ''super_admin'' then Next req
          else Respond (fail_json 403 ''Access denied. Super admin privileges required.''))"

definition optional_identity :: "user \<Rightarrow> identity" where
  "optional_identity u =
     \<lparr>userId = uid u, ctx_email = Some (email u), ctx_name = Some (name u),
      ctx_role = role u, ctx_status = None, ctx_preferences = None, isGuest = False\<rparr>"

text \<open>
  \<^verbatim>\<open>optionalAuthMiddleware\<close>: no guest branch, and its \<^verbatim>\<open>catch\<close> block calls
  \<^verbatim>\<open>next()\<close> whatever was thrown.
\<close>

definition optionalAuthMiddleware :: "auth_env \<Rightarrow> request \<Rightarrow> outcome" where
  "optionalAuthMiddleware E req =
     (case bearer_token (authorization req) of
        None \<Rightarrow> Next req
      | Some token \<Rightarrow>
          if token = [] then Next req
          else
            (case jwt_verify E token of
               Inl err \<Rightarrow> Next req
             | Inr decoded \<Rightarrow>
                 (case findById E (p_userId decoded) of
                    Inl err \<Rightarrow> Next req
                  | Inr None \<Rightarrow> Next req
                  | Inr (Some u) \<Rightarrow>
                      if status u = ''active'' \<and> \<not> isLocked (users E) u
                      then Next (req\<lparr>req_user := Some (optional_identity u)\<rparr>)
                      else Next req)))"

text \<open>
  \<^verbatim>\<open>router.use(authMiddleware); router.use(adminMiddleware)\<close>: the middlewares run in
  order, and the first response ends the request.
\<close>

fun router_use :: "(request \<Rightarrow> outcome) list \<Rightarrow> request \<Rightarrow> outcome" where
  "router_use [] req = Next req"
| "router_use (m # ms) req =
     (case m req of Respond r \<Rightarrow> Respond r | Next req' \<Rightarrow> router_use ms req')"

section \<open>Registration and login\<close>

text \<open>
  The libraries the auth router calls: the \<^verbatim>\<open>isEmail\<close> validator and the
  \<^verbatim>\<open>normalizeEmail\<close> sanitizer of express-validator, and \<^verbatim>\<open>jwt.sign\<close> with the
  configured secret and expiry.
\<close>

record lib =
  isEmail :: "string \<Rightarrow> bool"
  normalizeEmail :: "string \<Rightarrow> string"
  jwt_sign :: "payload \<Rightarrow> string"

text \<open>
  \<^verbatim>\<open>String.prototype.toLowerCase\<close>, on the ASCII letters (the other characters of
  the byte strings used here stay as they are).
\<close>

definition toLowerCase :: "string \<Rightarrow> string" where
  "toLowerCase s =
     map (\<lambda>c. case map_of (zip ''ABCDEFGHIJKLMNOPQRSTUVWXYZ'' ''abcdefghijklmnopqrstuvwxyz'') c of
                 Some l \<Rightarrow> l
               | None \<Rightarrow> c) s"

text \<open>
  The \<^verbatim>\<open>User\<close> collection is a list of documents. \<^verbatim>\<open>User.findOne({ email })\<close> returns
  the first document with that email; \<^verbatim>\<open>save()\<close> validates, then replaces the document
  with the same \<^verbatim>\<open>_id\<close> or inserts a new one.
\<close>

definition findOne_email :: "user list \<Rightarrow> string \<Rightarrow> user option" where
  "findOne_email us e = find (\<lambda>u. email u = e) us"

definition put_user :: "user \<Rightarrow> user list \<Rightarrow> user list" where
  "put_user u us =
     (if uid u \<in> uid ` set us then map (\<lambda>v. if uid v = uid u then u else v) us
      else us @ [u])"

definition save :: "user_model \<Rightarrow> user \<Rightarrow> user list \<Rightarrow> exn + user list" where
  "save M u us = (case validate M u of Some err \<Rightarrow> Inl err | None \<Rightarrow> Inr (put_user u us))"

text \<open>
  What a route handler does with a request: it sends a response, or it forwards a thrown
  error with \<^verbatim>\<open>next(error)\<close>.
\<close>

datatype 'd result = Send "'d response" | Forward exn

text \<open>
  The body of a login or registration request, as the validators read it (a missing
  field validates as the empty string; \<^verbatim>\<open>phone\<close> and \<^verbatim>\<open>role\<close> are optional).
\<close>

record auth_body =
  body_name :: string
  body_email :: string
  body_password :: string
  body_phone :: "string option"
  body_role :: "string option"

text \<open>
  \<^verbatim>\<open>validateLogin\<close> and \<^verbatim>\<open>validateRegister\<close>: the list of the fields that fail, which
  is what \<^verbatim>\<open>validationResult(req)\<close> holds; an \<^verbatim>\<open>optional()\<close> field is checked only
  when it is present.
\<close>

definition validateLogin :: "lib \<Rightarrow> auth_body \<Rightarrow> string list" where
  "validateLogin L b =
     (if isEmail L (body_email b) then [] else [''email'']) @
     (if body_password b \<noteq> [] then [] else [''password''])"

definition validateRegister :: "lib \<Rightarrow> auth_body \<Rightarrow> string list" where
  "validateRegister L b =
     (if body_name b \<noteq> [] then [] else [''name'']) @
     (if isEmail L (body_email b) then [] else [''email'']) @
     (if 6 \<le> length (body_password b) then [] else [''password'']) @
     (case body_role b of
        None \<Rightarrow> []
      | Some r \<Rightarrow> if r \<in> set [''user'', ''admin''] then [] else [''role''])"

text \<open>\<^verbatim>\<open>generateToken\<close>: the payload holds the account's id and role.\<close>

definition generateToken :: "lib \<Rightarrow> user \<Rightarrow> string" where
  "generateToken L u = jwt_sign L \<lparr>p_userId = uid u, p_role = role u, p_isGuest = False\<rparr>"

definition ok_json :: "nat \<Rightarrow> string option \<Rightarrow> 'd \<Rightarrow> 'd response" where
  "ok_json code msg d =
     \<lparr>status_code = code, success = True, message = msg, errors = [],
      detail = None, data = Some d\<rparr>"

text \<open>
  \<^verbatim>\<open>POST /register\<close>. The destructuring \<^verbatim>\<open>role = "admin"\<close> supplies the role when
  the body has none. The response's data are the token and the saved document
  (\<^verbatim>\<open>toJSON\<close> picks the fields it shows). The result is paired with the collection
  after the request; \<open>now\<close> is \<^verbatim>\<open>new Date()\<close>.
\<close>

definition register :: "lib \<Rightarrow> user_model \<Rightarrow> nat \<Rightarrow> user list \<Rightarrow> auth_body \<Rightarrow>
    (string \<times> user) result \<times> user list" where
  "register L M now us b =
     (let errs = validateRegister L b in
      if errs \<noteq> [] then (Send (validation_failed errs), us)
      else
        let mail = normalizeEmail L (body_email b);
            r = (case body_role b of None \<Rightarrow> ''admin'' | Some r \<Rightarrow> r)
        in
        (case findOne_email us (toLowerCase mail) of
           Some existing \<Rightarrow> (Send (fail_json 409 ''User already exists with this email''), us)
         | None \<Rightarrow>
             let u = (blank_user M)\<lparr>name := body_name b, email := mail,
                       password := hashPassword M (body_password b),
                       phone := body_phone b, role := r\<rparr>
             in
             (case save M u us of
                Inl err \<Rightarrow> (Forward err, us)
              | Inr us1 \<Rightarrow>
                  let token = generateToken L u;
                      u' = u\<lparr>lastLogin := Some now\<rparr>
                  in
                  (case save M u' us1 of
                     Inl err \<Rightarrow> (Forward err, us1)
                   | Inr us2 \<Rightarrow>
                       (Send (ok_json 201 (Some ''User registered successfully'') (token, u')),
                        us2)))))"

text \<open>
  \<^verbatim>\<open>POST /login\<close>. The checks run in the order of the source: validation, account
  found, role, lock, status, password. \<^verbatim>\<open>incLoginAttempts\<close> and
  \<^verbatim>\<open>resetLoginAttempts\<close> write the stored document; the last \<^verbatim>\<open>save()\<close> adds the two
  timestamps. The response's data are the token and the document whose fields it shows.
\<close>

definition login :: "lib \<Rightarrow> user_model \<Rightarrow> nat \<Rightarrow> user list \<Rightarrow> auth_body \<Rightarrow>
    (string \<times> user) result \<times> user list" where
  "login L M now us b =
     (let errs = validateLogin L b in
      if errs \<noteq> [] then (Send (validation_failed errs), us)
      else
        (case findOne_email us (toLowerCase (normalizeEmail L (body_email b))) of
           None \<Rightarrow> (Send (fail_json 401 ''Invalid credentials''), us)
         | Some u \<Rightarrow>
             if role u \<notin> set [''admin'', ''super_admin'']
             then (Send (fail_json 403 ''Access denied. Admin privileges required.''), us)
             else if isLocked M u
             then (Send (fail_json 423
                     ''Account is temporarily locked due to too many failed login attempts.''),
                   us)
             else if status u \<noteq> ''active''
             then (Send (fail_json 403
                     ''Your account is not active. Please contact support.''), us)
             else if \<not> comparePassword M u (body_password b)
             then (Send (fail_json 401 ''Invalid credentials''),
                   put_user (incLoginAttempts M u) us)
             else
               let us1 = put_user (resetLoginAttempts M u) us;
                   token = generateToken L u;
                   u' = (resetLoginAttempts M u)\<lparr>lastLogin := Some now,
                          lastActiveAt := Some now\<rparr>
               in
               (case save M u' us1 of
                  Inl err \<Rightarrow> (Forward err, us1)
                | Inr us2 \<Rightarrow> (Send (ok_json 200 (Some ''Login successful'') (token, u')), us2))))"

text \<open>
  Modelled from the spec: the lockout bookkeeping of \<^verbatim>\<open>models/User.js\<close>, which is not
  among the sources. \<^verbatim>\<open>isLocked\<close> is true iff \<^verbatim>\<open>lockUntil\<close> is set and in the future;
  a failed attempt increments the counter and, when the new count reaches the threshold of
  5, locks the account for the lock duration of 2 hours; a reset sets the counter to 0 and
  clears \<^verbatim>\<open>lockUntil\<close>.
\<close>

definition lockThreshold :: nat where
  "lockThreshold = 5"

definition lockDuration :: nat where
  "lockDuration = 2 * 60 * 60 * 1000"

definition spec_isLocked :: "nat \<Rightarrow> user \<Rightarrow> bool" where
  "spec_isLocked now u = (case lockUntil u of None \<Rightarrow> False | Some t \<Rightarrow> now < t)"

definition spec_incLoginAttempts :: "nat \<Rightarrow> user \<Rightarrow> user" where
  "spec_incLoginAttempts now u =
     (let n = loginAttempts u + 1 in
      if lockThreshold \<le> n then u\<lparr>loginAttempts := n, lockUntil := Some (now + lockDuration)\<rparr>
      else u\<lparr>loginAttempts := n\<rparr>)"

definition spec_resetLoginAttempts :: "user \<Rightarrow> user" where
  "spec_resetLoginAttempts u = u\<lparr>loginAttempts := 0, lockUntil := None\<rparr>"

definition spec_lockout :: "nat \<Rightarrow> user_model \<Rightarrow> user_model" where
  "spec_lockout now M =
     M\<lparr>isLocked := spec_isLocked now, incLoginAttempts := spec_incLoginAttempts now,
       resetLoginAttempts := spec_resetLoginAttempts\<rparr>"

text \<open>
  A sequence of login requests, each handled at its own time, with the lockout methods
  modelled from the spec evaluated at that time; the responses in order, and the
  collection after the last request.
\<close>

fun login_seq :: "lib \<Rightarrow> user_model \<Rightarrow> user list \<Rightarrow> (nat \<times> auth_body) list \<Rightarrow>
    (string \<times> user) result list \<times> user list" where
  "login_seq L M us [] = ([], us)"
| "login_seq L M us ((t, b) # rest) =
     (case login L (spec_lockout t M) t us b of
        (r, us1) \<Rightarrow> (case login_seq L M us1 rest of (rs, us2) \<Rightarrow> (r # rs, us2)))"

text \<open>
  A well-formed login request for the account with email \<open>e\<close> whose password the
  account \<open>u\<close> does not accept, whatever its lockout counters are.
\<close>

definition failed_attempt :: "lib \<Rightarrow> user_model \<Rightarrow> string \<Rightarrow> user \<Rightarrow> auth_body \<Rightarrow> bool" where
  "failed_attempt L M e u b =
     (validateLogin L b = [] \<and> toLowerCase (normalizeEmail L (body_email b)) = e \<and>
      (\<forall>v. password v = password u \<longrightarrow> \<not> comparePassword M v (body_password b)))"

section \<open>List endpoints: pagination, sorting, rating histogram\<close>

text \<open>
  \<^verbatim>\<open>req.query\<close> maps parameter names to the strings of the URL. JavaScript turns such a
  string into a number with \<^verbatim>\<open>Number\<close> (in \<^verbatim>\<open>page - 1\<close>, \<^verbatim>\<open>* limit\<close>, \<^verbatim>\<open>/ limit\<close>)
  and with \<^verbatim>\<open>parseInt\<close>; validator.js's \<^verbatim>\<open>isInt\<close> accepts the strings
  \<^verbatim>\<open>^[-+]?[0-9]+$\<close> and \<^verbatim>\<open>toInt\<close> is \<^verbatim>\<open>parseInt\<close>. On a string of decimal digits
  with an optional sign the three conversions agree, and \<open>js_int\<close> is that integer; on
  every other string (\<open>None\<close>) they give \<^verbatim>\<open>NaN\<close>, fractions or different values, which
  this development does not follow. JavaScript numbers are doubles: the integers here are
  exact, as the doubles are up to \<open>2^53\<close>.
\<close>

type_synonym query = "string \<rightharpoonup> string"

definition digit_val :: "char \<Rightarrow> nat option" where
  "digit_val c = map_of (zip ''0123456789'' [0, 1, 2, 3, 4, 5, 6, 7, 8, 9]) c"

fun digits_value :: "nat \<Rightarrow> string \<Rightarrow> nat option" where
  "digits_value acc [] = Some acc"
| "digits_value acc (c # cs) =
     (case digit_val c of None \<Rightarrow> None | Some d \<Rightarrow> digits_value (10 * acc + d) cs)"

definition js_int :: "string \<Rightarrow> int option" where
  "js_int s =
     (case s of
        [] \<Rightarrow> None
      | c # cs \<Rightarrow>
          if c = CHR ''-'' then (if cs = [] then None
                                else map_option (\<lambda>n. - int n) (digits_value 0 cs))
          else if c = CHR ''+'' then (if cs = [] then None
                                     else map_option int (digits_value 0 cs))
          else map_option int (digits_value 0 s))"

text \<open>A JavaScript number that may be \<^verbatim>\<open>Infinity\<close> or \<^verbatim>\<open>NaN\<close>.\<close>

datatype jsnum = Fin int | Infinity | NaN

text \<open>
  \<^verbatim>\<open>Math.ceil(total / limit)\<close> for a count \<open>n\<close> and an integer \<open>limit\<close>: division
  by zero gives \<^verbatim>\<open>Infinity\<close>, or \<^verbatim>\<open>NaN\<close> for \<^verbatim>\<open>0 / 0\<close>.
\<close>

definition js_ceil_div :: "nat \<Rightarrow> int \<Rightarrow> jsnum" where
  "js_ceil_div n limit =
     (if limit = 0 then (if n = 0 then NaN else Infinity)
      else Fin (- ((- int n) div limit)))"

text \<open>
  A collection of the document store. The driver is outside the repository: how a
  document matches a condition of the filter (\<open>holds\<close>) and how \<^verbatim>\<open>sort\<close> orders
  documents by a field and a direction (\<open>ordered\<close>) are parameters. A filter is the list of
  the conditions the handler put into its query object.
\<close>

datatype cond = Eq string string | EqNum string int | RegexAny "string list" string

record 'a collection =
  docs :: "'a list"
  holds :: "cond \<Rightarrow> 'a \<Rightarrow> bool"
  ordered :: "string \<Rightarrow> int \<Rightarrow> 'a list \<Rightarrow> 'a list"

definition matching :: "'a collection \<Rightarrow> cond list \<Rightarrow> 'a list" where
  "matching C f = filter (\<lambda>d. list_all (\<lambda>c. holds C c d) f) (docs C)"

definition countDocuments :: "'a collection \<Rightarrow> cond list \<Rightarrow> nat" where
  "countDocuments C f = length (matching C f)"

text \<open>
  MongoDB's \<^verbatim>\<open>limit\<close>: 0 means no limit, and the driver sends a negative limit as its
  absolute value.
\<close>

definition limit_docs :: "int \<Rightarrow> 'a list \<Rightarrow> 'a list" where
  "limit_docs n xs = (if n = 0 then xs else take (nat \<bar>n\<bar>) xs)"

text \<open>
  \<^verbatim>\<open>Model.find(f).sort(s).skip(k).limit(n)\<close>; the server rejects a negative skip.
\<close>

definition find_docs ::
    "'a collection \<Rightarrow> cond list \<Rightarrow> string \<times> int \<Rightarrow> int \<Rightarrow> int \<Rightarrow> exn + 'a list" where
  "find_docs C f s k n =
     (if k < 0
      then Inl \<lparr>ename = ''MongoServerError'', emessage = ''Skip value must be non-negative''\<rparr>
      else Inr (limit_docs n (drop (nat k) (ordered C (fst s) (snd s) (matching C f)))))"

text \<open>
  The \<^verbatim>\<open>data\<close> of a list response: the page's items (\<^verbatim>\<open>articles\<close>, \<^verbatim>\<open>videos\<close>,
  \<^verbatim>\<open>users\<close>, \<^verbatim>\<open>feedbacks\<close>) and the \<^verbatim>\<open>pagination\<close> object, whose count is
  \<^verbatim>\<open>totalArticles\<close>, \<^verbatim>\<open>totalVideos\<close>, \<^verbatim>\<open>totalUsers\<close> or \<^verbatim>\<open>totalFeedback\<close>.
\<close>

record 'a page =
  items :: "'a list"
  currentPage :: int
  totalPages :: jsnum
  totalCount :: nat

definition truthy :: "string option \<Rightarrow> bool" where
  "truthy v = (case v of None \<Rightarrow> False | Some s \<Rightarrow> s \<noteq> [])"

definition sortObj :: "query \<Rightarrow> string \<times> int" where
  "sortObj q =
     (case q ''sort'' of None \<Rightarrow> ''createdAt'' | Some s \<Rightarrow> s,
      if (case q ''order'' of None \<Rightarrow> ''desc'' | Some r \<Rightarrow> r) = ''desc'' then - 1 else 1)"

definition param_int :: "query \<Rightarrow> string \<Rightarrow> int \<Rightarrow> int option" where
  "param_int q k dflt = (case q k of None \<Rightarrow> Some dflt | Some s \<Rightarrow> js_int s)"

definition status_category_filter :: "query \<Rightarrow> cond list" where
  "status_category_filter q =
     (if truthy (q ''status'') \<and> q ''status'' \<noteq> Some ''all''
      then [Eq ''status'' (the (q ''status''))] else []) @
     (if truthy (q ''category'') \<and> q ''category'' \<noteq> Some ''all''
      then [Eq ''category'' (the (q ''category''))] else [])"

definition send_page :: "'a collection \<Rightarrow> cond list \<Rightarrow> string \<times> int \<Rightarrow> int \<Rightarrow> int \<Rightarrow>
    'a page result" where
  "send_page C f s p l =
     (case find_docs C f s ((p - 1) * l) l of
        Inl err \<Rightarrow> Forward err
      | Inr xs \<Rightarrow>
          Send (ok_json 200 None
            \<lparr>items = xs, currentPage = p,
             totalPages = js_ceil_div (countDocuments C f) l,
             totalCount = countDocuments C f\<rparr>))"

text \<open>
  \<^verbatim>\<open>GET /api/news\<close> (routes/news.js) and \<^verbatim>\<open>GET /api/videos\<close>: no validator runs before
  the handler. The result is \<open>None\<close> where \<^verbatim>\<open>page\<close> or \<^verbatim>\<open>limit\<close> is a string that
  \<open>js_int\<close> does not read.
\<close>

definition news_list :: "'a collection \<Rightarrow> query \<Rightarrow> 'a page result option" where
  "news_list C q =
     (case (param_int q ''page'' 1, param_int q ''limit'' 20) of
        (Some p, Some l) \<Rightarrow>
          Some (send_page C
            (status_category_filter q @
             (if truthy (q ''search'')
              then [RegexAny [''title'', ''summary''] (the (q ''search''))] else []))
            (sortObj q) p l)
      | _ \<Rightarrow> None)"

definition videos_list :: "'a collection \<Rightarrow> query \<Rightarrow> 'a page result option" where
  "videos_list C q =
     (case (param_int q ''page'' 1, param_int q ''limit'' 20) of
        (Some p, Some l) \<Rightarrow>
          Some (send_page C
            (status_category_filter q @
             (if truthy (q ''search'')
              then [RegexAny [''title'', ''description''] (the (q ''search''))] else []))
            (sortObj q) p l)
      | _ \<Rightarrow> None)"

text \<open>
  The validators of express-validator used on query parameters:
  \<^verbatim>\<open>optional().isInt({ min, max })\<close> and \<^verbatim>\<open>optional().isIn([...])\<close>. Each gives the
  name of the parameter when it fails.
\<close>

definition isInt :: "int \<Rightarrow> int option \<Rightarrow> string \<Rightarrow> bool" where
  "isInt lo hi s =
     (case js_int s of
        None \<Rightarrow> False
      | Some v \<Rightarrow> lo \<le> v \<and> (case hi of None \<Rightarrow> True | Some h \<Rightarrow> v \<le> h))"

definition check_isInt :: "query \<Rightarrow> string \<Rightarrow> int \<Rightarrow> int option \<Rightarrow> string list" where
  "check_isInt q k lo hi =
     (case q k of None \<Rightarrow> [] | Some s \<Rightarrow> if isInt lo hi s then [] else [k])"

definition check_isIn :: "query \<Rightarrow> string \<Rightarrow> string list \<Rightarrow> string list" where
  "check_isIn q k allowed =
     (case q k of None \<Rightarrow> [] | Some s \<Rightarrow> if s \<in> set allowed then [] else [k])"

text \<open>
  \<^verbatim>\<open>GET /api/admin/users\<close> with \<^verbatim>\<open>validateUserQuery\<close>. \<open>sanitize\<close> is the
  \<^verbatim>\<open>trim().escape()\<close> sanitizer of \<^verbatim>\<open>search\<close>; \<^verbatim>\<open>select('-password')\<close> leaves the
  password out of every item.
\<close>

definition validateUserQuery :: "query \<Rightarrow> string list" where
  "validateUserQuery q =
     check_isInt q ''page'' 1 None @
     check_isInt q ''limit'' 1 (Some 100) @
     check_isIn q ''role'' [''user'', ''admin'', ''super_admin''] @
     check_isIn q ''status'' [''active'', ''inactive'', ''suspended'']"

definition without_password :: "user page result \<Rightarrow> user page result" where
  "without_password r =
     (case r of
        Send rsp \<Rightarrow>
          Send (rsp\<lparr>data := map_option
                  (\<lambda>pg. pg\<lparr>items := map (\<lambda>u. u\<lparr>password := []\<rparr>) (items pg)\<rparr>) (data rsp)\<rparr>)
      | Forward err \<Rightarrow> Forward err)"

definition users_list ::
    "(string \<Rightarrow> string) \<Rightarrow> user collection \<Rightarrow> query \<Rightarrow> user page result option" where
  "users_list sanitize C q =
     (let errs = validateUserQuery q in
      if errs \<noteq> [] then Some (Send (validation_failed errs))
      else
        (case (param_int q ''page'' 1, param_int q ''limit'' 20) of
           (Some p, Some l) \<Rightarrow>
             Some (without_password (send_page C
               ((if truthy (q ''role'') then [Eq ''role'' (the (q ''role''))] else []) @
                (if truthy (q ''status'') then [Eq ''status'' (the (q ''status''))] else []) @
                (if truthy (map_option sanitize (q ''search''))
                 then [RegexAny [''name'', ''email''] (sanitize (the (q ''search'')))] else []))
               (sortObj q) p l))
         | _ \<Rightarrow> None))"

text \<open>A document of the \<^verbatim>\<open>Feedback\<close> collection (models/Feedback.js).\<close>

record feedback_doc =
  feedback :: string
  rating :: "rat option"
  fb_user :: "string option"
  deviceInfo :: "string option"
  createdAt :: nat

text \<open>
  The rating histogram of both feedback handlers: it starts as
  \<^verbatim>\<open>{ 1: 0, 2: 0, 3: 0, 4: 0, 5: 0 }\<close>, and \<^verbatim>\<open>if (rating) ratingDistribution[rating]++\<close>
  runs for every pushed rating. A rating that is absent or 0 is falsy; \<^verbatim>\<open>++\<close> on a
  key the object lacks stores \<^verbatim>\<open>NaN\<close>.
\<close>

definition zero_distribution :: "rat \<rightharpoonup> jsnum" where
  "zero_distribution = [1 \<mapsto> Fin 0, 2 \<mapsto> Fin 0, 3 \<mapsto> Fin 0, 4 \<mapsto> Fin 0, 5 \<mapsto> Fin 0]"

fun js_increment :: "jsnum option \<Rightarrow> jsnum" where
  "js_increment (Some (Fin n)) = Fin (n + 1)"
| "js_increment (Some Infinity) = Infinity"
| "js_increment (Some NaN) = NaN"
| "js_increment None = NaN"

definition count_rating :: "(rat \<rightharpoonup> jsnum) \<Rightarrow> rat option \<Rightarrow> (rat \<rightharpoonup> jsnum)" where
  "count_rating h r =
     (case r of
        None \<Rightarrow> h
      | Some x \<Rightarrow> if x = 0 then h else h(x \<mapsto> js_increment (h x)))"

text \<open>
  The \<^verbatim>\<open>$group\<close> stage with \<^verbatim>\<open>_id: null\<close> yields no group for an empty input and one
  group otherwise; \<open>pushed\<close> is \<^verbatim>\<open>stats[0].ratingDistribution\<close> (or \<^verbatim>\<open>ratings\<close>) when
  there is a group.
\<close>

definition pushed_ratings :: "feedback_doc list \<Rightarrow> rat option list option" where
  "pushed_ratings ds = (if ds = [] then None else Some (map rating ds))"

definition ratingDistribution :: "rat option list option \<Rightarrow> (rat \<rightharpoonup> jsnum)" where
  "ratingDistribution pushed =
     (case pushed of
        None \<Rightarrow> zero_distribution
      | Some rs \<Rightarrow> foldl count_rating zero_distribution rs)"

text \<open>
  \<^verbatim>\<open>GET /api/feedback\<close>: validators, then the page and the statistics over the whole
  collection. The average rating (a formatted floating-point number) is left out.
\<close>

record feedback_stats =
  totalFeedback :: nat
  distribution :: "rat \<rightharpoonup> jsnum"

definition validateFeedbackQuery :: "query \<Rightarrow> string list" where
  "validateFeedbackQuery q =
     check_isInt q ''page'' 1 None @
     check_isInt q ''limit'' 1 (Some 100) @
     check_isInt q ''rating'' 1 (Some 5) @
     check_isIn q ''sort'' [''createdAt'', ''rating'', ''feedback''] @
     check_isIn q ''order'' [''asc'', ''desc'']"

definition feedback_list ::
    "feedback_doc collection \<Rightarrow> query \<Rightarrow> (feedback_doc page \<times> feedback_stats) result option" where
  "feedback_list C q =
     (let errs = validateFeedbackQuery q in
      if errs \<noteq> [] then Some (Send (validation_failed errs))
      else
        (case (param_int q ''page'' 1, param_int q ''limit'' 20) of
           (Some p, Some l) \<Rightarrow>
             Some
               (case send_page C
                  ((case q ''rating'' of
                      None \<Rightarrow> []
                    | Some s \<Rightarrow> (case js_int s of
                                   None \<Rightarrow> []
                                 | Some r \<Rightarrow> if r = 0 then [] else [EqNum ''rating'' r])) @
                   (if truthy (q ''search'')
                    then [RegexAny [''feedback''] (the (q ''search''))] else []))
                  (sortObj q) p l of
                  Forward err \<Rightarrow> Forward err
                | Send rsp \<Rightarrow>
                    Send (ok_json 200 None
                      (the (data rsp),
                       \<lparr>totalFeedback = length (docs C),
                        distribution = ratingDistribution (pushed_ratings (docs C))\<rparr>)))
         | _ \<Rightarrow> None))"

text \<open>
  \<^verbatim>\<open>GET /api/feedback/stats/summary\<close>: the recent feedback is the documents created at
  or after \<open>startDate\<close> (the handler computes it from \<^verbatim>\<open>days\<close> with \<^verbatim>\<open>Date\<close>). The
  averages and the daily trend are left out.
\<close>

record feedback_summary =
  recent_count :: nat
  recent_distribution :: "rat \<rightharpoonup> jsnum"
  overall_count :: nat

definition feedback_summary :: "feedback_doc list \<Rightarrow> nat \<Rightarrow> feedback_summary response" where
  "feedback_summary ds startDate =
     (let recent = filter (\<lambda>d. startDate \<le> createdAt d) ds in
      ok_json 200 None
        \<lparr>recent_count = length recent,
         recent_distribution = ratingDistribution (pushed_ratings recent),
         overall_count = length ds\<rparr>)"

section \<open>Example values\<close>

text \<open>
  Concrete instances of the parameters, used where a statement is evaluated on an
  input: a library that accepts every email and leaves it as it is, a \<^verbatim>\<open>User\<close> model
  whose hash is the identity and whose lockout methods are those modelled from the spec at
  time \<open>now\<close>, and two accounts.
\<close>

definition example_lib :: lib where
  "example_lib = \<lparr>isEmail = (\<lambda>s. True), normalizeEmail = (\<lambda>s. s), jwt_sign = p_userId\<rparr>"

definition alice :: user where
  "alice =
     \<lparr>uid = ''u1'', name = ''Alice'', email = ''alice@example.com'', password = ''secret1'',
      phone = None, role = ''admin'', status = ''active'', loginAttempts = 0,
      lockUntil = None, lastLogin = None, lastActiveAt = None, avatar = None,
      preferences = []\<rparr>"

definition bob :: user where
  "bob = alice\<lparr>uid := ''u2'', name := ''Bob'', email := ''bob@example.com'', role := ''user''\<rparr>"

definition example_model :: "nat \<Rightarrow> user_model" where
  "example_model now =
     \<lparr>comparePassword = (\<lambda>u p. password u = p),
      isLocked = spec_isLocked now,
      incLoginAttempts = spec_incLoginAttempts now,
      resetLoginAttempts = spec_resetLoginAttempts,
      blank_user = alice\<lparr>uid := ''u9'', name := [], email := [], password := []\<rparr>,
      hashPassword = (\<lambda>p. p),
      validate = (\<lambda>u. None)\<rparr>"

definition login_body :: "string \<Rightarrow> string \<Rightarrow> auth_body" where
  "login_body e p =
     \<lparr>body_name = [], body_email = e, body_password = p, body_phone = None,
      body_role = None\<rparr>"

text \<open>
  An environment of the auth gate in which the token \<^verbatim>\<open>good\<close> is Alice's, \<^verbatim>\<open>idle\<close>
  belongs to an inactive account and \<^verbatim>\<open>locked\<close> to a locked one, \<^verbatim>\<open>gone\<close> names an
  account that no longer exists, \<^verbatim>\<open>broken\<close> carries an id on which the store throws,
  \<^verbatim>\<open>guest\<close> is a guest token, \<^verbatim>\<open>old\<close> has expired and every other token is
  malformed.
\<close>

definition token_payload :: "string \<Rightarrow> payload" where
  "token_payload i = \<lparr>p_userId = i, p_role = ''admin'', p_isGuest = False\<rparr>"

definition example_env :: auth_env where
  "example_env =
     \<lparr>jwt_verify = (\<lambda>t.
        if t = ''good'' then Inr (token_payload ''u1'')
        else if t = ''idle'' then Inr (token_payload ''u3'')
        else if t = ''locked'' then Inr (token_payload ''u4'')
        else if t = ''gone'' then Inr (token_payload ''u7'')
        else if t = ''broken'' then Inr (token_payload ''bad'')
        else if t = ''guest'' then Inr \<lparr>p_userId = ''g1'', p_role = ''guest'', p_isGuest = True\<rparr>
        else if t = ''old'' then Inl \<lparr>ename = ''TokenExpiredError'', emessage = ''jwt expired''\<rparr>
        else Inl \<lparr>ename = ''JsonWebTokenError'', emessage = ''jwt malformed''\<rparr>),
      findById = (\<lambda>i.
        if i = ''u1'' then Inr (Some alice)
        else if i = ''u3'' then Inr (Some (alice\<lparr>uid := ''u3'', status := ''inactive''\<rparr>))
        else if i = ''u4'' then Inr (Some (alice\<lparr>uid := ''u4'', lockUntil := Some 1000\<rparr>))
        else if i = ''bad'' then Inl \<lparr>ename = ''CastError'', emessage = ''Cast to ObjectId failed''\<rparr>
        else Inr None),
      users = example_model 0,
      development = False\<rparr>"

definition bearer :: "string \<Rightarrow> request" where
  "bearer t = \<lparr>authorization = Some (''Bearer '' @ t), req_user = None\<rparr>"

text \<open>Five failed login attempts on Alice's account, at the times 10 to 50.\<close>

definition wrong5 :: "(nat \<times> auth_body) list" where
  "wrong5 = map (\<lambda>t. (t, login_body ''alice@example.com'' ''guess'')) [10, 20, 30, 40, 50]"

text \<open>A registration body without a role, and a feedback document.\<close>

definition carol_body :: auth_body where
  "carol_body =
     \<lparr>body_name = ''Carol'', body_email = ''carol@example.com'', body_password = ''secret3'',
      body_phone = None, body_role = None\<rparr>"

definition fb :: "rat option \<Rightarrow> nat \<Rightarrow> feedback_doc" where
  "fb r t = \<lparr>feedback = ''text'', rating = r, fb_user = None, deviceInfo = None, createdAt = t\<rparr>"

text \<open>A collection whose documents all match every filter and keep their stored order.\<close>

definition plain_collection :: "'a list \<Rightarrow> 'a collection" where
  "plain_collection ds = \<lparr>docs = ds, holds = (\<lambda>c d. True), ordered = (\<lambda>f dir xs. xs)\<rparr>"

section \<open>Login and the lockout\<close>

text \<open>Replacing a stored account by a version with the same id and email keeps it found.\<close>

lemma find_replaced:
  "find (\<lambda>v. email v = e) us = Some u \<Longrightarrow> uid u' = uid u \<Longrightarrow> email u' = e \<Longrightarrow>
   find (\<lambda>v. email v = e) (map (\<lambda>v. if uid v = uid u' then u' else v) us) = Some u'"
  by (induction us) (auto split: if_splits)

lemma findOne_put_user:
  assumes "findOne_email us e = Some u" and "uid u' = uid u" and "email u' = e"
  shows "findOne_email (put_user u' us) e = Some u'"
proof -
  from assms(1) have "u \<in> set us"
    by (auto simp: findOne_email_def find_Some_iff)
  then have "uid u' \<in> uid ` set us"
    using assms(2) by force
  then show ?thesis
    using assms find_replaced [of e us u u'] by (simp add: put_user_def findOne_email_def)
qed

lemma login_locked_general:
  assumes "validateLogin L b = []"
    and "findOne_email us (toLowerCase (normalizeEmail L (body_email b))) = Some u"
    and "role u \<in> set [''admin'', ''super_admin'']"
    and "isLocked M u"
  shows "login L M now us b =
     (Send (fail_json 423
        ''Account is temporarily locked due to too many failed login attempts.''), us)"
  using assms by (simp add: login_def)

lemma login_wrong_step:
  assumes "failed_attempt L M e u b"
    and "findOne_email us e = Some v"
    and "password v = password u"
    and "role v \<in> set [''admin'', ''super_admin'']"
    and "status v = ''active''"
    and "\<not> spec_isLocked t v"
  shows "login L (spec_lockout t M) t us b =
     (Send (fail_json 401 ''Invalid credentials''), put_user (spec_incLoginAttempts t v) us)"
  using assms by (simp add: login_def failed_attempt_def spec_lockout_def)

lemma login_seq_append:
  "login_seq L M us (xs @ ys) =
     (case login_seq L M us xs of
        (rs, us1) \<Rightarrow> (case login_seq L M us1 ys of (rs', us2) \<Rightarrow> (rs @ rs', us2)))"
  by (induction xs arbitrary: us) (auto split: prod.splits)

lemma wrong_attempts:
  assumes "list_all (\<lambda>a. failed_attempt L M e u (snd a)) atts"
    and "findOne_email us e = Some v"
    and "password v = password u"
    and "role v \<in> set [''admin'', ''super_admin'']"
    and "status v = ''active''"
    and "lockUntil v = None"
    and "loginAttempts v + length atts < lockThreshold"
  shows "\<exists>us'. login_seq L M us atts =
           (replicate (length atts) (Send (fail_json 401 ''Invalid credentials'')), us') \<and>
         findOne_email us' e = Some (v\<lparr>loginAttempts := loginAttempts v + length atts\<rparr>)"
  using assms
proof (induction atts arbitrary: us v)
  case Nil
  then show ?case by simp
next
  case (Cons a atts)
  obtain t b where a: "a = (t, b)" by (cases a)
  let ?v = "v\<lparr>loginAttempts := loginAttempts v + 1\<rparr>"
  have nl: "\<not> spec_isLocked t v"
    using Cons.prems by (simp add: spec_isLocked_def)
  have inc: "spec_incLoginAttempts t v = ?v"
    using Cons.prems by (simp add: spec_incLoginAttempts_def)
  have step: "login L (spec_lockout t M) t us b =
      (Send (fail_json 401 ''Invalid credentials''), put_user ?v us)"
    using login_wrong_step [of L M e u b us v t] Cons.prems nl inc a by simp
  have found: "findOne_email (put_user ?v us) e = Some ?v"
  proof -
    have "email v = e"
      using Cons.prems(2) by (auto simp: findOne_email_def find_Some_iff)
    then show ?thesis
      using findOne_put_user [of us e v ?v] Cons.prems(2) by simp
  qed
  have "\<exists>us'. login_seq L M (put_user ?v us) atts =
           (replicate (length atts) (Send (fail_json 401 ''Invalid credentials'')), us') \<and>
         findOne_email us' e = Some (?v\<lparr>loginAttempts := loginAttempts ?v + length atts\<rparr>)"
    using Cons.prems found by (intro Cons.IH) simp_all
  then show ?case
    using step a by auto
qed


lemma five_then_locked:
  assumes found: "findOne_email us e = Some u"
    and adm: "role u \<in> set [''admin'', ''super_admin'']"
    and act: "status u = ''active''"
    and zero: "loginAttempts u = 0"
    and unl: "lockUntil u = None"
    and len: "length atts = 5"
    and wrong: "list_all (\<lambda>a. failed_attempt L M e u (snd a)) atts"
    and v6: "validateLogin L b6 = []"
    and e6: "toLowerCase (normalizeEmail L (body_email b6)) = e"
    and t6: "t6 < fst (last atts) + lockDuration"
  shows "\<exists>us'. login_seq L M us (atts @ [(t6, b6)]) =
           (replicate 5 (Send (fail_json 401 ''Invalid credentials'')) @
            [Send (fail_json 423
               ''Account is temporarily locked due to too many failed login attempts.'')],
            us') \<and>
         findOne_email us' e =
           Some (u\<lparr>loginAttempts := 5, lockUntil := Some (fst (last atts) + lockDuration)\<rparr>)"
proof -
  obtain t5 b5 where a5: "last atts = (t5, b5)" by (cases "last atts")
  define atts4 where "atts4 = butlast atts"
  have split: "atts = atts4 @ [(t5, b5)]"
    using len a5 unfolding atts4_def by (metis append_butlast_last_id length_0_conv zero_neq_numeral)
  have len4: "length atts4 = 4"
    using len split by simp
  have wrong4: "list_all (\<lambda>a. failed_attempt L M e u (snd a)) atts4"
    and wrong5: "failed_attempt L M e u b5"
    using wrong split by simp_all
  let ?u4 = "u\<lparr>loginAttempts := 4\<rparr>"
  let ?u5 = "u\<lparr>loginAttempts := 5, lockUntil := Some (t5 + lockDuration)\<rparr>"
  obtain us4 where seq4: "login_seq L M us atts4 =
        (replicate 4 (Send (fail_json 401 ''Invalid credentials'')), us4)"
    and found4: "findOne_email us4 e = Some ?u4"
    using wrong_attempts [of L M e u atts4 us u] wrong4 found adm act unl zero len4
    by (auto simp: lockThreshold_def)
  have inc5: "spec_incLoginAttempts t5 ?u4 = ?u5"
    by (simp add: spec_incLoginAttempts_def lockThreshold_def)
  have step5: "login L (spec_lockout t5 M) t5 us4 b5 =
      (Send (fail_json 401 ''Invalid credentials''), put_user ?u5 us4)"
    using login_wrong_step [of L M e u b5 us4 ?u4 t5] wrong5 found4 adm act unl inc5
    by (simp add: spec_isLocked_def)
  have email_u: "email u = e"
    using found by (auto simp: findOne_email_def find_Some_iff)
  have found5: "findOne_email (put_user ?u5 us4) e = Some ?u5"
    using findOne_put_user [of us4 e ?u4 ?u5] found4 email_u by simp
  have locked6: "isLocked (spec_lockout t6 M) ?u5"
    using t6 a5 by (simp add: spec_lockout_def spec_isLocked_def)
  have step6: "login L (spec_lockout t6 M) t6 (put_user ?u5 us4) b6 =
      (Send (fail_json 423
         ''Account is temporarily locked due to too many failed login attempts.''),
       put_user ?u5 us4)"
    using login_locked_general [of L b6 "put_user ?u5 us4" ?u5 "spec_lockout t6 M" t6]
      v6 e6 found5 adm locked6 by simp
  have r5: "\<And>x :: (string \<times> user) result. replicate 4 x @ [x] = replicate 5 x"
    by (simp add: numeral_eq_Suc)
  have "login_seq L M us (atts @ [(t6, b6)]) =
      (replicate 5 (Send (fail_json 401 ''Invalid credentials'')) @
       [Send (fail_json 423
          ''Account is temporarily locked due to too many failed login attempts.'')],
       put_user ?u5 us4)"
    unfolding split
    by (simp add: login_seq_append seq4 step5 step6 r5)
  then show ?thesis
    using found5 a5 by simp
qed

text \<open>
  C1 (as amended). For every login request that passes validation against a stored
  account that is locked: when the account's role is \<^verbatim>\<open>admin\<close> or
  \<^verbatim>\<open>super_admin\<close> the login fails with 423, whatever the password, and the stored
  accounts (so the failed-attempt counter) are unchanged; for any other role the role check
  comes first and the login fails with 403, the store unchanged as well. With the lockout
  bookkeeping modelled from the spec: on an active admin account with no failed attempts,
  five attempts with a wrong password each fail with 401, and a sixth attempt before the
  lock runs out fails with 423 whatever its password, leaving the counter at 5.
\<close>

theorem login_while_locked:
  "(validateLogin L b = [] \<and>
    findOne_email us (toLowerCase (normalizeEmail L (body_email b))) = Some u \<and>
    isLocked M u \<longrightarrow>
      login L M now us b =
        (if role u \<in> set [''admin'', ''super_admin'']
         then Send (fail_json 423
                ''Account is temporarily locked due to too many failed login attempts.'')
         else Send (fail_json 403 ''Access denied. Admin privileges required.''), us))
   \<and> (findOne_email us0 e = Some u0 \<and> role u0 \<in> set [''admin'', ''super_admin''] \<and>
      status u0 = ''active'' \<and> loginAttempts u0 = 0 \<and> lockUntil u0 = None \<and>
      length atts = 5 \<and> list_all (\<lambda>a. failed_attempt L M0 e u0 (snd a)) atts \<and>
      validateLogin L b6 = [] \<and> toLowerCase (normalizeEmail L (body_email b6)) = e \<and>
      t6 < fst (last atts) + lockDuration \<longrightarrow>
        (\<exists>us'. login_seq L M0 us0 (atts @ [(t6, b6)]) =
           (replicate 5 (Send (fail_json 401 ''Invalid credentials'')) @
            [Send (fail_json 423
               ''Account is temporarily locked due to too many failed login attempts.'')],
            us') \<and>
         findOne_email us' e =
           Some (u0\<lparr>loginAttempts := 5,
                   lockUntil := Some (fst (last atts) + lockDuration)\<rparr>)))"
proof (intro conjI impI)
  assume "validateLogin L b = [] \<and>
    findOne_email us (toLowerCase (normalizeEmail L (body_email b))) = Some u \<and>
    isLocked M u"
  then show "login L M now us b =
        (if role u \<in> set [''admin'', ''super_admin'']
         then Send (fail_json 423
                ''Account is temporarily locked due to too many failed login attempts.'')
         else Send (fail_json 403 ''Access denied. Admin privileges required.''), us)"
    by (simp add: login_def)
next
  assume "findOne_email us0 e = Some u0 \<and> role u0 \<in> set [''admin'', ''super_admin''] \<and>
      status u0 = ''active'' \<and> loginAttempts u0 = 0 \<and> lockUntil u0 = None \<and>
      length atts = 5 \<and> list_all (\<lambda>a. failed_attempt L M0 e u0 (snd a)) atts \<and>
      validateLogin L b6 = [] \<and> toLowerCase (normalizeEmail L (body_email b6)) = e \<and>
      t6 < fst (last atts) + lockDuration"
  then show "\<exists>us'. login_seq L M0 us0 (atts @ [(t6, b6)]) =
           (replicate 5 (Send (fail_json 401 ''Invalid credentials'')) @
            [Send (fail_json 423
               ''Account is temporarily locked due to too many failed login attempts.'')],
            us') \<and>
         findOne_email us' e =
           Some (u0\<lparr>loginAttempts := 5,
                   lockUntil := Some (fst (last atts) + lockDuration)\<rparr>)"
    using five_then_locked [of us0 e u0 atts L M0 b6 t6] by blast
qed

lemma alice_failed_attempt:
  "failed_attempt example_lib (example_model 0) ''alice@example.com'' alice
     (login_body ''alice@example.com'' ''guess'')"
  by (simp add: failed_attempt_def validateLogin_def example_lib_def example_model_def
      login_body_def toLowerCase_def alice_def)

theorem login_while_locked_witness:
  "login example_lib (example_model 0) 0 [alice\<lparr>lockUntil := Some 1000\<rparr>]
       (login_body ''alice@example.com'' ''secret1'') =
     (Send (fail_json 423
        ''Account is temporarily locked due to too many failed login attempts.''),
      [alice\<lparr>lockUntil := Some 1000\<rparr>])
   \<and> (\<exists>us'. login_seq example_lib (example_model 0) [alice]
          (wrong5 @ [(60, login_body ''alice@example.com'' ''secret1'')]) =
        (replicate 5 (Send (fail_json 401 ''Invalid credentials'')) @
         [Send (fail_json 423
            ''Account is temporarily locked due to too many failed login attempts.'')],
         us') \<and>
        findOne_email us' ''alice@example.com'' =
          Some (alice\<lparr>loginAttempts := 5, lockUntil := Some (50 + lockDuration)\<rparr>))"
proof -
  have hyp1: "validateLogin example_lib (login_body ''alice@example.com'' ''secret1'') = [] \<and>
      findOne_email [alice\<lparr>lockUntil := Some 1000\<rparr>]
        (toLowerCase (normalizeEmail example_lib
           (body_email (login_body ''alice@example.com'' ''secret1'')))) =
        Some (alice\<lparr>lockUntil := Some 1000\<rparr>) \<and>
      isLocked (example_model 0) (alice\<lparr>lockUntil := Some 1000\<rparr>)"
    by (simp add: validateLogin_def example_lib_def login_body_def findOne_email_def
        toLowerCase_def alice_def example_model_def spec_isLocked_def)
  have adm: "role (alice\<lparr>lockUntil := Some 1000\<rparr>) \<in> set [''admin'', ''super_admin'']"
    by (simp add: alice_def)
  have hyp2: "findOne_email [alice] ''alice@example.com'' = Some alice \<and>
      role alice \<in> set [''admin'', ''super_admin''] \<and>
      status alice = ''active'' \<and> loginAttempts alice = 0 \<and> lockUntil alice = None \<and>
      length wrong5 = 5 \<and>
      list_all (\<lambda>a. failed_attempt example_lib (example_model 0) ''alice@example.com'' alice
                  (snd a)) wrong5 \<and>
      validateLogin example_lib (login_body ''alice@example.com'' ''secret1'') = [] \<and>
      toLowerCase (normalizeEmail example_lib
        (body_email (login_body ''alice@example.com'' ''secret1''))) = ''alice@example.com'' \<and>
      60 < fst (last wrong5) + lockDuration"
    using alice_failed_attempt
    by (simp add: findOne_email_def alice_def wrong5_def validateLogin_def example_lib_def
        login_body_def toLowerCase_def lockDuration_def)
  have last5: "fst (last wrong5) = 50"
    by (simp add: wrong5_def)
  note T = login_while_locked [where L = example_lib
        and b = "login_body ''alice@example.com'' ''secret1''"
        and us = "[alice\<lparr>lockUntil := Some 1000\<rparr>]"
        and u = "alice\<lparr>lockUntil := Some 1000\<rparr>" and M = "example_model 0" and now = 0
        and ?us0.0 = "[alice]" and e = "''alice@example.com''" and ?u0.0 = alice
        and atts = wrong5 and ?M0.0 = "example_model 0"
        and ?b6.0 = "login_body ''alice@example.com'' ''secret1''" and ?t6.0 = 60]
  note c1 = T [THEN conjunct1, THEN mp, OF hyp1]
  note c2 = T [THEN conjunct2, THEN mp, OF hyp2]
  from c1 adm have "login example_lib (example_model 0) 0 [alice\<lparr>lockUntil := Some 1000\<rparr>]
       (login_body ''alice@example.com'' ''secret1'') =
     (Send (fail_json 423
        ''Account is temporarily locked due to too many failed login attempts.''),
      [alice\<lparr>lockUntil := Some 1000\<rparr>])"
    by simp
  moreover from c2 have "\<exists>us'. login_seq example_lib (example_model 0) [alice]
          (wrong5 @ [(60, login_body ''alice@example.com'' ''secret1'')]) =
        (replicate 5 (Send (fail_json 401 ''Invalid credentials'')) @
         [Send (fail_json 423
            ''Account is temporarily locked due to too many failed login attempts.'')],
         us') \<and>
        findOne_email us' ''alice@example.com'' =
          Some (alice\<lparr>loginAttempts := 5, lockUntil := Some (50 + lockDuration)\<rparr>)"
    unfolding last5 .
  ultimately show ?thesis
    by (rule conjI)
qed

text \<open>
  A locked account whose role is \<^verbatim>\<open>user\<close>: the login answers 403, not 423.
\<close>

theorem login_locked_counterexample:
  "isLocked (example_model 0) (bob\<lparr>lockUntil := Some 1000\<rparr>) \<and>
   login example_lib (example_model 0) 0 [bob\<lparr>lockUntil := Some 1000\<rparr>]
       (login_body ''bob@example.com'' ''secret1'') =
     (Send (fail_json 403 ''Access denied. Admin privileges required.''),
      [bob\<lparr>lockUntil := Some 1000\<rparr>])"
  by (simp add: login_def validateLogin_def example_lib_def login_body_def findOne_email_def
      toLowerCase_def alice_def bob_def example_model_def spec_isLocked_def)

section \<open>Auth gate\<close>

text \<open>
  C2 (as amended). In the auth gate each of the four authentication failures (no token,
  an invalid token, an expired token, a token whose account is not found) is answered
  with status 401 and \<^verbatim>\<open>success: false\<close>, so the status does not tell them apart. The
  message does: each failure has a message of its own, and the four messages are distinct.
\<close>

theorem auth_failures_401:
  "((bearer_token (authorization req) = None \<or> bearer_token (authorization req) = Some []) \<longrightarrow>
      authMiddleware E req = Respond (fail_json 401 ''Access denied. No token provided.''))
   \<and> (bearer_token (authorization req) = Some tok \<and> tok \<noteq> [] \<and>
      jwt_verify E tok = Inl err \<and> ename err = ''JsonWebTokenError'' \<longrightarrow>
      authMiddleware E req = Respond (fail_json 401 ''Invalid token.''))
   \<and> (bearer_token (authorization req) = Some tok \<and> tok \<noteq> [] \<and>
      jwt_verify E tok = Inl err \<and> ename err = ''TokenExpiredError'' \<longrightarrow>
      authMiddleware E req = Respond (fail_json 401 ''Token expired. Please login again.''))
   \<and> (bearer_token (authorization req) = Some tok \<and> tok \<noteq> [] \<and>
      jwt_verify E tok = Inr d \<and> \<not> p_isGuest d \<and> findById E (p_userId d) = Inr None \<longrightarrow>
      authMiddleware E req = Respond (fail_json 401 ''Token is not valid. User not found.''))
   \<and> status_code (fail_json 401 m :: unit response) = 401
   \<and> success (fail_json 401 m :: unit response) = False
   \<and> message (fail_json 401 m :: unit response) = Some m
   \<and> distinct [''Access denied. No token provided.'', ''Invalid token.'',
        ''Token expired. Please login again.'', ''Token is not valid. User not found.'']"
  by (auto simp: authMiddleware_def auth_catch_def fail_json_def)

theorem auth_failures_401_witness:
  "authMiddleware example_env \<lparr>authorization = None, req_user = None\<rparr> =
     Respond (fail_json 401 ''Access denied. No token provided.'')
   \<and> authMiddleware example_env (bearer ''junk'') = Respond (fail_json 401 ''Invalid token.'')
   \<and> authMiddleware example_env (bearer ''old'') =
       Respond (fail_json 401 ''Token expired. Please login again.'')
   \<and> authMiddleware example_env (bearer ''gone'') =
       Respond (fail_json 401 ''Token is not valid. User not found.'')"
proof -
  have h1: "bearer_token (authorization \<lparr>authorization = None, req_user = None\<rparr>) = None \<or>
      bearer_token (authorization \<lparr>authorization = None, req_user = None\<rparr>) = Some []"
    by (simp add: bearer_token_def)
  have h2: "bearer_token (authorization (bearer ''junk'')) = Some ''junk'' \<and> ''junk'' \<noteq> [] \<and>
      jwt_verify example_env ''junk'' =
        Inl \<lparr>ename = ''JsonWebTokenError'', emessage = ''jwt malformed''\<rparr> \<and>
      ename \<lparr>ename = ''JsonWebTokenError'', emessage = ''jwt malformed''\<rparr> = ''JsonWebTokenError''"
    by (simp add: bearer_token_def bearer_def example_env_def token_payload_def)
  have h3: "bearer_token (authorization (bearer ''old'')) = Some ''old'' \<and> ''old'' \<noteq> [] \<and>
      jwt_verify example_env ''old'' =
        Inl \<lparr>ename = ''TokenExpiredError'', emessage = ''jwt expired''\<rparr> \<and>
      ename \<lparr>ename = ''TokenExpiredError'', emessage = ''jwt expired''\<rparr> = ''TokenExpiredError''"
    by (simp add: bearer_token_def bearer_def example_env_def token_payload_def)
  have h4: "bearer_token (authorization (bearer ''gone'')) = Some ''gone'' \<and> ''gone'' \<noteq> [] \<and>
      jwt_verify example_env ''gone'' =
        Inr (token_payload ''u7'') \<and>
      \<not> p_isGuest (token_payload ''u7'') \<and>
      findById example_env (p_userId (token_payload ''u7'')) =
        Inr None"
    by (simp add: bearer_token_def bearer_def example_env_def token_payload_def)
  note c1 = auth_failures_401 [where E = example_env
      and req = "\<lparr>authorization = None, req_user = None\<rparr>", THEN conjunct1, THEN mp, OF h1]
  note c2 = auth_failures_401 [where E = example_env and req = "bearer ''junk''",
      THEN conjunct2, THEN conjunct1, THEN mp, OF h2]
  note c3 = auth_failures_401 [where E = example_env and req = "bearer ''old''",
      THEN conjunct2, THEN conjunct2, THEN conjunct1, THEN mp, OF h3]
  note c4 = auth_failures_401 [where E = example_env and req = "bearer ''gone''",
      THEN conjunct2, THEN conjunct2, THEN conjunct2, THEN conjunct1, THEN mp, OF h4]
  from c1 c2 c3 c4 show ?thesis by (intro conjI)
qed

text \<open>
  The response to a request with no token differs from the response to a token whose
  account is not found.
\<close>

theorem auth_failures_counterexample:
  "authMiddleware example_env \<lparr>authorization = None, req_user = None\<rparr> =
     Respond (fail_json 401 ''Access denied. No token provided.'')
   \<and> authMiddleware example_env (bearer ''gone'') =
       Respond (fail_json 401 ''Token is not valid. User not found.'')
   \<and> authMiddleware example_env \<lparr>authorization = None, req_user = None\<rparr> \<noteq>
       authMiddleware example_env (bearer ''gone'')"
  by (simp add: authMiddleware_def bearer_token_def bearer_def example_env_def fail_json_def
      token_payload_def)

text \<open>
  C9. For a request whose bearer token verifies and carries \<^verbatim>\<open>isGuest\<close>, the auth gate
  attaches a context with role \<^verbatim>\<open>guest\<close> and passes the request on; the store lookup and
  the \<^verbatim>\<open>User\<close> model play no part in the result; the admin gate and the super-admin
  gate answer 403 on the request so attached, and so does every router that runs the auth
  gate and then one of the two role gates.
\<close>

theorem guest_token_never_admin:
  "bearer_token (authorization req) = Some tok \<and> tok \<noteq> [] \<and>
   jwt_verify E tok = Inr d \<and> p_isGuest d \<longrightarrow>
     authMiddleware E req = Next (req\<lparr>req_user := Some (guest_identity d)\<rparr>)
     \<and> ctx_role (guest_identity d) = ''guest''
     \<and> authMiddleware (E\<lparr>findById := f, users := m\<rparr>) req = authMiddleware E req
     \<and> adminMiddleware (req\<lparr>req_user := Some (guest_identity d)\<rparr>) =
         Respond (fail_json 403 ''Access denied. Admin privileges required.'')
     \<and> superAdminMiddleware (req\<lparr>req_user := Some (guest_identity d)\<rparr>) =
         Respond (fail_json 403 ''Access denied. Super admin privileges required.'')
     \<and> router_use [authMiddleware E, adminMiddleware] req =
         Respond (fail_json 403 ''Access denied. Admin privileges required.'')
     \<and> router_use [authMiddleware E, superAdminMiddleware] req =
         Respond (fail_json 403 ''Access denied. Super admin privileges required.'')
     \<and> status_code (fail_json 403 msg :: unit response) = 403"
  by (simp add: authMiddleware_def adminMiddleware_def superAdminMiddleware_def
      guest_identity_def fail_json_def)

theorem guest_token_never_admin_witness:
  "authMiddleware example_env (bearer ''guest'') =
     Next ((bearer ''guest'')\<lparr>req_user := Some (guest_identity
        \<lparr>p_userId = ''g1'', p_role = ''guest'', p_isGuest = True\<rparr>)\<rparr>)
   \<and> router_use [authMiddleware example_env, adminMiddleware] (bearer ''guest'') =
       Respond (fail_json 403 ''Access denied. Admin privileges required.'')
   \<and> router_use [authMiddleware example_env, superAdminMiddleware] (bearer ''guest'') =
       Respond (fail_json 403 ''Access denied. Super admin privileges required.'')"
proof -
  have h: "bearer_token (authorization (bearer ''guest'')) = Some ''guest'' \<and> ''guest'' \<noteq> [] \<and>
      jwt_verify example_env ''guest'' =
        Inr \<lparr>p_userId = ''g1'', p_role = ''guest'', p_isGuest = True\<rparr> \<and>
      p_isGuest \<lparr>p_userId = ''g1'', p_role = ''guest'', p_isGuest = True\<rparr>"
    by (simp add: bearer_token_def bearer_def example_env_def token_payload_def)
  note c = guest_token_never_admin [where E = example_env and req = "bearer ''guest''",
      THEN mp, OF h]
  from c show ?thesis by blast
qed

text \<open>
  C10. The optional auth gate always calls \<^verbatim>\<open>next()\<close>. It leaves the request as it is
  when the token is absent or empty, when verification throws (invalid or expired token),
  when the store throws or finds no account, and when the account is inactive or locked;
  it attaches the account's identity when the token resolves to an active, unlocked
  account.
\<close>

theorem optional_auth_never_fails:
  "(\<exists>req'. optionalAuthMiddleware E req = Next req')
   \<and> ((bearer_token (authorization req) = None \<or> bearer_token (authorization req) = Some []) \<longrightarrow>
        optionalAuthMiddleware E req = Next req)
   \<and> (bearer_token (authorization req) = Some tok \<and> jwt_verify E tok = Inl err \<longrightarrow>
        optionalAuthMiddleware E req = Next req)
   \<and> (bearer_token (authorization req) = Some tok \<and> jwt_verify E tok = Inr d \<and>
      findById E (p_userId d) = Inl err \<longrightarrow>
        optionalAuthMiddleware E req = Next req)
   \<and> (bearer_token (authorization req) = Some tok \<and> jwt_verify E tok = Inr d \<and>
      findById E (p_userId d) = Inr None \<longrightarrow>
        optionalAuthMiddleware E req = Next req)
   \<and> (bearer_token (authorization req) = Some tok \<and> jwt_verify E tok = Inr d \<and>
      findById E (p_userId d) = Inr (Some u) \<and> status u \<noteq> ''active'' \<longrightarrow>
        optionalAuthMiddleware E req = Next req)
   \<and> (bearer_token (authorization req) = Some tok \<and> jwt_verify E tok = Inr d \<and>
      findById E (p_userId d) = Inr (Some u) \<and> isLocked (users E) u \<longrightarrow>
        optionalAuthMiddleware E req = Next req)
   \<and> (bearer_token (authorization req) = Some tok \<and> tok \<noteq> [] \<and> jwt_verify E tok = Inr d \<and>
      findById E (p_userId d) = Inr (Some u) \<and> status u = ''active'' \<and>
      \<not> isLocked (users E) u \<longrightarrow>
        optionalAuthMiddleware E req = Next (req\<lparr>req_user := Some (optional_identity u)\<rparr>))"
  by (auto simp: optionalAuthMiddleware_def split: option.splits sum.splits)


theorem optional_auth_never_fails_witness:
  "optionalAuthMiddleware example_env \<lparr>authorization = None, req_user = None\<rparr> =
     Next \<lparr>authorization = None, req_user = None\<rparr>
   \<and> optionalAuthMiddleware example_env (bearer ''junk'') = Next (bearer ''junk'')
   \<and> optionalAuthMiddleware example_env (bearer ''old'') = Next (bearer ''old'')
   \<and> optionalAuthMiddleware example_env (bearer ''broken'') = Next (bearer ''broken'')
   \<and> optionalAuthMiddleware example_env (bearer ''gone'') = Next (bearer ''gone'')
   \<and> optionalAuthMiddleware example_env (bearer ''idle'') = Next (bearer ''idle'')
   \<and> optionalAuthMiddleware example_env (bearer ''locked'') = Next (bearer ''locked'')
   \<and> optionalAuthMiddleware example_env (bearer ''good'') =
       Next ((bearer ''good'')\<lparr>req_user := Some (optional_identity alice)\<rparr>)"
proof -
  note defs = bearer_token_def bearer_def example_env_def token_payload_def
  note T = optional_auth_never_fails [where E = example_env]
  have h1: "bearer_token (authorization \<lparr>authorization = None, req_user = None\<rparr>) = None \<or>
      bearer_token (authorization \<lparr>authorization = None, req_user = None\<rparr>) = Some []"
    by (simp add: defs)
  have h2: "bearer_token (authorization (bearer ''junk'')) = Some ''junk'' \<and>
      jwt_verify example_env ''junk'' =
        Inl \<lparr>ename = ''JsonWebTokenError'', emessage = ''jwt malformed''\<rparr>"
    by (simp add: defs)
  have h3: "bearer_token (authorization (bearer ''old'')) = Some ''old'' \<and>
      jwt_verify example_env ''old'' =
        Inl \<lparr>ename = ''TokenExpiredError'', emessage = ''jwt expired''\<rparr>"
    by (simp add: defs)
  have h4: "bearer_token (authorization (bearer ''broken'')) = Some ''broken'' \<and>
      jwt_verify example_env ''broken'' = Inr (token_payload ''bad'') \<and>
      findById example_env (p_userId (token_payload ''bad'')) =
        Inl \<lparr>ename = ''CastError'', emessage = ''Cast to ObjectId failed''\<rparr>"
    by (simp add: defs)
  have h5: "bearer_token (authorization (bearer ''gone'')) = Some ''gone'' \<and>
      jwt_verify example_env ''gone'' = Inr (token_payload ''u7'') \<and>
      findById example_env (p_userId (token_payload ''u7'')) = Inr None"
    by (simp add: defs)
  have h6: "bearer_token (authorization (bearer ''idle'')) = Some ''idle'' \<and>
      jwt_verify example_env ''idle'' = Inr (token_payload ''u3'') \<and>
      findById example_env (p_userId (token_payload ''u3'')) =
        Inr (Some (alice\<lparr>uid := ''u3'', status := ''inactive''\<rparr>)) \<and>
      status (alice\<lparr>uid := ''u3'', status := ''inactive''\<rparr>) \<noteq> ''active''"
    by (simp add: defs)
  have h7: "bearer_token (authorization (bearer ''locked'')) = Some ''locked'' \<and>
      jwt_verify example_env ''locked'' = Inr (token_payload ''u4'') \<and>
      findById example_env (p_userId (token_payload ''u4'')) =
        Inr (Some (alice\<lparr>uid := ''u4'', lockUntil := Some 1000\<rparr>)) \<and>
      isLocked (users example_env) (alice\<lparr>uid := ''u4'', lockUntil := Some 1000\<rparr>)"
    by (simp add: defs example_model_def spec_isLocked_def)
  have h8: "bearer_token (authorization (bearer ''good'')) = Some ''good'' \<and> ''good'' \<noteq> [] \<and>
      jwt_verify example_env ''good'' = Inr (token_payload ''u1'') \<and>
      findById example_env (p_userId (token_payload ''u1'')) = Inr (Some alice) \<and>
      status alice = ''active'' \<and> \<not> isLocked (users example_env) alice"
    by (simp add: defs example_model_def spec_isLocked_def alice_def)
  note c1 = T [where req = "\<lparr>authorization = None, req_user = None\<rparr>",
      THEN conjunct2, THEN conjunct1, THEN mp, OF h1]
  note c2 = T [where req = "bearer ''junk''",
      THEN conjunct2, THEN conjunct2, THEN conjunct1, THEN mp, OF h2]
  note c3 = T [where req = "bearer ''old''",
      THEN conjunct2, THEN conjunct2, THEN conjunct1, THEN mp, OF h3]
  note c4 = T [where req = "bearer ''broken''",
      THEN conjunct2, THEN conjunct2, THEN conjunct2, THEN conjunct1, THEN mp, OF h4]
  note c5 = T [where req = "bearer ''gone''",
      THEN conjunct2, THEN conjunct2, THEN conjunct2, THEN conjunct2, THEN conjunct1,
      THEN mp, OF h5]
  note c6 = T [where req = "bearer ''idle''",
      THEN conjunct2, THEN conjunct2, THEN conjunct2, THEN conjunct2, THEN conjunct2,
      THEN conjunct1, THEN mp, OF h6]
  note c7 = T [where req = "bearer ''locked''",
      THEN conjunct2, THEN conjunct2, THEN conjunct2, THEN conjunct2, THEN conjunct2,
      THEN conjunct2, THEN conjunct1, THEN mp, OF h7]
  note c8 = T [where req = "bearer ''good''",
      THEN conjunct2, THEN conjunct2, THEN conjunct2, THEN conjunct2, THEN conjunct2,
      THEN conjunct2, THEN conjunct2, THEN mp, OF h8]
  from c1 c2 c3 c4 c5 c6 c7 c8 show ?thesis by (intro conjI)
qed

section \<open>Role gate\<close>

text \<open>
  C7. The role gates are functions of \<^verbatim>\<open>req.user\<close> alone (they take no store and no
  environment): the admin gate passes the request on, unchanged, exactly when a context is
  attached whose role is \<^verbatim>\<open>admin\<close> or \<^verbatim>\<open>super_admin\<close>, the super-admin gate exactly
  when the role is \<^verbatim>\<open>super_admin\<close>, and each answers 403 in every other case.
\<close>

theorem role_gate_exact:
  "adminMiddleware req =
     (if \<exists>u. req_user req = Some u \<and> ctx_role u \<in> {''admin'', ''super_admin''}
      then Next req
      else Respond (fail_json 403 ''Access denied. Admin privileges required.''))
   \<and> superAdminMiddleware req =
     (if \<exists>u. req_user req = Some u \<and> ctx_role u \<in> {''super_admin''}
      then Next req
      else Respond (fail_json 403 ''Access denied. Super admin privileges required.''))
   \<and> status_code (fail_json 403 m :: unit response) = 403"
  by (auto simp: adminMiddleware_def superAdminMiddleware_def fail_json_def
      split: option.splits)

section \<open>Registration\<close>

lemma put_user_mem: "u \<in> set (put_user u us)"
  by (auto simp: put_user_def image_iff)

lemma register_created:
  assumes "register L M now us b = (Send r, us')" and "status_code r = 201"
  shows "\<exists>u. data r = Some (generateToken L u, u\<lparr>lastLogin := Some now\<rparr>) \<and>
           role u = (case body_role b of None \<Rightarrow> ''admin'' | Some x \<Rightarrow> x) \<and>
           u\<lparr>lastLogin := Some now\<rparr> \<in> set us'"
  using assms
  by (auto simp: register_def Let_def save_def validation_failed_def fail_json_def ok_json_def
      put_user_mem split: if_splits option.splits sum.splits)

text \<open>
  C8. Whenever a registration without a \<^verbatim>\<open>role\<close> field is answered with 201, the
  account in the response and in the store has the role \<^verbatim>\<open>admin\<close>, not \<^verbatim>\<open>user\<close>; and
  such a registration is answered with 201 when the body is valid, the email is new and
  the schema validation passes. The route runs no auth gate: the handler reads the body
  only, never an identity.
\<close>

theorem register_default_role:
  "(body_role b = None \<and> register L M now us b = (Send r, us') \<and> status_code r = 201 \<longrightarrow>
      (\<exists>tok u. data r = Some (tok, u) \<and> role u = ''admin'' \<and> role u \<noteq> ''user'' \<and>
         u \<in> set us'))
   \<and> (body_role b0 = None \<and> validateRegister L0 b0 = [] \<and>
      findOne_email us0 (toLowerCase (normalizeEmail L0 (body_email b0))) = None \<and>
      (\<forall>v. validate M0 v = None) \<longrightarrow>
      (\<exists>tok u us1. register L0 M0 now0 us0 b0 =
          (Send (ok_json 201 (Some ''User registered successfully'') (tok, u)), us1) \<and>
        role u = ''admin'' \<and> u \<in> set us1))"
proof (intro conjI impI)
  assume a: "body_role b = None \<and> register L M now us b = (Send r, us') \<and> status_code r = 201"
  with register_created [of L M now us b r us']
  show "\<exists>tok u. data r = Some (tok, u) \<and> role u = ''admin'' \<and> role u \<noteq> ''user'' \<and> u \<in> set us'"
    by auto
next
  assume a: "body_role b0 = None \<and> validateRegister L0 b0 = [] \<and>
      findOne_email us0 (toLowerCase (normalizeEmail L0 (body_email b0))) = None \<and>
      (\<forall>v. validate M0 v = None)"
  let ?u = "(blank_user M0)\<lparr>name := body_name b0, email := normalizeEmail L0 (body_email b0),
      password := hashPassword M0 (body_password b0), phone := body_phone b0,
      role := ''admin''\<rparr>"
  let ?u' = "?u\<lparr>lastLogin := Some now0\<rparr>"
  from a have reg: "register L0 M0 now0 us0 b0 =
      (Send (ok_json 201 (Some ''User registered successfully'') (generateToken L0 ?u, ?u')),
       put_user ?u' (put_user ?u us0))"
    by (simp add: register_def Let_def save_def)
  have "role ?u' = ''admin''"
    by simp
  moreover have "?u' \<in> set (put_user ?u' (put_user ?u us0))"
    by (rule put_user_mem)
  ultimately show "\<exists>tok u us1. register L0 M0 now0 us0 b0 =
          (Send (ok_json 201 (Some ''User registered successfully'') (tok, u)), us1) \<and>
        role u = ''admin'' \<and> u \<in> set us1"
    using reg by blast
qed

theorem register_default_role_witness:
  "\<exists>tok u us1. register example_lib (example_model 0) 7 [alice] carol_body =
       (Send (ok_json 201 (Some ''User registered successfully'') (tok, u)), us1) \<and>
     role u = ''admin'' \<and> u \<in> set us1"
proof -
  have h: "body_role carol_body = None \<and> validateRegister example_lib carol_body = [] \<and>
      findOne_email [alice]
        (toLowerCase (normalizeEmail example_lib (body_email carol_body))) = None \<and>
      (\<forall>v. validate (example_model 0) v = None)"
    by (simp add: carol_body_def validateRegister_def example_lib_def findOne_email_def
        toLowerCase_def alice_def example_model_def)
  note T = register_default_role [where ?L0.0 = example_lib and ?M0.0 = "example_model 0"
      and ?now0.0 = 7 and ?us0.0 = "[alice]" and ?b0.0 = carol_body]
  show ?thesis
    by (rule T [THEN conjunct2, THEN mp, OF h])
qed

section \<open>List endpoints\<close>

lemma js_int_150: "js_int ''150'' = Some 150"
  by (simp add: js_int_def digit_val_def)

lemma length_limit_docs: "0 < n \<Longrightarrow> length (limit_docs n xs) \<le> nat n"
  by (simp add: limit_docs_def)

lemma js_ceil_div_ceiling:
  "0 < l \<Longrightarrow> js_ceil_div n l = Fin \<lceil>real n / real_of_int l\<rceil>"
proof -
  assume "0 < l"
  have "\<lceil>real_of_int (int n) / real_of_int l\<rceil> = - ((- int n) div l)"
    by (simp only: ceiling_divide_eq_div)
  with \<open>0 < l\<close> show ?thesis
    by (simp add: js_ceil_div_def)
qed

lemma send_page_sound:
  assumes "0 < l" and "send_page C f s p l = Send r"
  shows "\<exists>pg. data r = Some pg \<and> status_code r = 200 \<and> length (items pg) \<le> nat l \<and>
           totalCount pg = countDocuments C f \<and>
           totalPages pg = Fin \<lceil>real (totalCount pg) / real_of_int l\<rceil>"
  using assms
  by (auto simp: send_page_def find_docs_def ok_json_def length_limit_docs
      js_ceil_div_ceiling split: if_splits)


lemma validated_limit:
  assumes "check_isInt q ''limit'' 1 (Some 100) = []"
  shows "\<exists>l. param_int q ''limit'' 20 = Some l \<and> 1 \<le> l \<and> l \<le> 100"
  using assms
  by (auto simp: check_isInt_def isInt_def param_int_def split: option.splits if_splits)

lemma validated_page:
  assumes "check_isInt q ''page'' 1 None = []"
  shows "\<exists>p. param_int q ''page'' 1 = Some p \<and> 1 \<le> p"
  using assms
  by (auto simp: check_isInt_def isInt_def param_int_def split: option.splits if_splits)

lemma feedback_list_sound:
  assumes "feedback_list C q = Some (Send r)" and "status_code r = 200"
  shows "\<exists>l pg st. param_int q ''limit'' 20 = Some l \<and> 1 \<le> l \<and> l \<le> 100 \<and>
           data r = Some (pg, st) \<and> length (items pg) \<le> nat l \<and>
           totalPages pg = Fin \<lceil>real (totalCount pg) / real_of_int l\<rceil>"
proof -
  have ok: "validateFeedbackQuery q = []"
    using assms by (auto simp: feedback_list_def Let_def validation_failed_def split: if_splits)
  then obtain l where l: "param_int q ''limit'' 20 = Some l" "1 \<le> l" "l \<le> 100"
    using validated_limit [of q] by (auto simp: validateFeedbackQuery_def)
  from ok obtain p where p: "param_int q ''page'' 1 = Some p"
    using validated_page [of q] by (auto simp: validateFeedbackQuery_def)
  from assms ok l p obtain f s r0 where
    sp: "send_page C f s p l = Send r0" and
    r: "r = ok_json 200 None (the (data r0),
          \<lparr>totalFeedback = length (docs C),
           distribution = ratingDistribution (pushed_ratings (docs C))\<rparr>)"
    by (auto simp: feedback_list_def Let_def split: result.splits)
  from send_page_sound [OF _ sp] l obtain pg where
    "data r0 = Some pg" "length (items pg) \<le> nat l"
    "totalPages pg = Fin \<lceil>real (totalCount pg) / real_of_int l\<rceil>"
    by auto
  with r l show ?thesis
    by (auto simp: ok_json_def)
qed

lemma feedback_list_total: "feedback_list C q \<noteq> None"
proof (cases "validateFeedbackQuery q = []")
  case True
  then obtain l p where "param_int q ''limit'' 20 = Some l" "param_int q ''page'' 1 = Some p"
    using validated_limit [of q] validated_page [of q]
    by (auto simp: validateFeedbackQuery_def)
  with True show ?thesis
    by (simp add: feedback_list_def)
next
  case False
  then show ?thesis
    by (simp add: feedback_list_def Let_def)
qed

lemma users_list_sound:
  assumes "users_list sanitize C q = Some (Send r)" and "status_code r = 200"
  shows "\<exists>l pg. param_int q ''limit'' 20 = Some l \<and> 1 \<le> l \<and> l \<le> 100 \<and>
           data r = Some pg \<and> length (items pg) \<le> nat l \<and>
           totalPages pg = Fin \<lceil>real (totalCount pg) / real_of_int l\<rceil>"
proof -
  have ok: "validateUserQuery q = []"
    using assms by (auto simp: users_list_def Let_def validation_failed_def split: if_splits)
  then obtain l where l: "param_int q ''limit'' 20 = Some l" "1 \<le> l" "l \<le> 100"
    using validated_limit [of q] by (auto simp: validateUserQuery_def)
  from ok obtain p where p: "param_int q ''page'' 1 = Some p"
    using validated_page [of q] by (auto simp: validateUserQuery_def)
  from assms ok l p obtain f s r0 where
    sp: "send_page C f s p l = Send r0" and
    r: "Send r = without_password (Send r0)"
    by (auto simp: users_list_def Let_def without_password_def split: result.splits)
  from send_page_sound [OF _ sp] l obtain pg where
    "data r0 = Some pg" "length (items pg) \<le> nat l"
    "totalPages pg = Fin \<lceil>real (totalCount pg) / real_of_int l\<rceil>"
    by auto
  with r l show ?thesis
    by (auto simp: without_password_def)
qed

lemma news_list_sound:
  assumes "param_int q ''limit'' 20 = Some l" and "0 < l"
    and "news_list C q = Some (Send r)"
  shows "\<exists>pg. data r = Some pg \<and> length (items pg) \<le> nat l \<and>
           totalPages pg = Fin \<lceil>real (totalCount pg) / real_of_int l\<rceil>"
proof -
  from assms obtain f s p where "send_page C f s p l = Send r"
    by (auto simp: news_list_def split: option.splits)
  from send_page_sound [OF assms(2) this] show ?thesis by auto
qed

lemma videos_list_sound:
  assumes "param_int q ''limit'' 20 = Some l" and "0 < l"
    and "videos_list C q = Some (Send r)"
  shows "\<exists>pg. data r = Some pg \<and> length (items pg) \<le> nat l \<and>
           totalPages pg = Fin \<lceil>real (totalCount pg) / real_of_int l\<rceil>"
proof -
  from assms obtain f s p where "send_page C f s p l = Send r"
    by (auto simp: videos_list_def split: option.splits)
  from send_page_sound [OF assms(2) this] show ?thesis by auto
qed

text \<open>
  C3. A limit of 150 on the news list and on the videos list is accepted and fetches 150
  items in one page; the feedback list and the users list reject the same parameter with
  400, as the claim requires of every list endpoint.
\<close>

theorem news_list_limit_uncapped:
  "news_list (plain_collection (replicate 150 a)) [''limit'' \<mapsto> ''150''] =
     Some (Send (ok_json 200 None
       \<lparr>items = replicate 150 a, currentPage = 1, totalPages = Fin 1, totalCount = 150\<rparr>))
   \<and> videos_list (plain_collection (replicate 150 a)) [''limit'' \<mapsto> ''150''] =
     Some (Send (ok_json 200 None
       \<lparr>items = replicate 150 a, currentPage = 1, totalPages = Fin 1, totalCount = 150\<rparr>))
   \<and> feedback_list (plain_collection (replicate 150 d)) [''limit'' \<mapsto> ''150''] =
     Some (Send (validation_failed [''limit'']))
   \<and> users_list sanitize (plain_collection (replicate 150 u)) [''limit'' \<mapsto> ''150''] =
     Some (Send (validation_failed [''limit'']))"
  by (simp add: news_list_def videos_list_def feedback_list_def users_list_def
      validateFeedbackQuery_def validateUserQuery_def check_isInt_def check_isIn_def isInt_def
      param_int_def js_int_150 status_category_filter_def truthy_def sortObj_def send_page_def
      find_docs_def limit_docs_def matching_def countDocuments_def plain_collection_def
      js_ceil_div_def)

text \<open>
  C4. A \<^verbatim>\<open>sort\<close> parameter naming an unknown field is accepted by the news list, the
  videos list and the users list, which answer 200 and hand the name to the store; only
  the feedback list rejects it with 400.
\<close>

theorem news_list_sort_unvalidated:
  "news_list (plain_collection [a, b]) [''sort'' \<mapsto> ''noSuchField''] =
     Some (Send (ok_json 200 None
       \<lparr>items = [a, b], currentPage = 1, totalPages = Fin 1, totalCount = 2\<rparr>))
   \<and> videos_list (plain_collection [a, b]) [''sort'' \<mapsto> ''noSuchField''] =
     Some (Send (ok_json 200 None
       \<lparr>items = [a, b], currentPage = 1, totalPages = Fin 1, totalCount = 2\<rparr>))
   \<and> users_list sanitize (plain_collection [alice, bob]) [''sort'' \<mapsto> ''noSuchField''] =
     Some (Send (ok_json 200 None
       \<lparr>items = [alice\<lparr>password := []\<rparr>, bob\<lparr>password := []\<rparr>], currentPage = 1,
        totalPages = Fin 1, totalCount = 2\<rparr>))
   \<and> feedback_list (plain_collection [d, d']) [''sort'' \<mapsto> ''noSuchField''] =
     Some (Send (validation_failed [''sort'']))"
  by (simp add: news_list_def videos_list_def feedback_list_def users_list_def
      validateFeedbackQuery_def validateUserQuery_def check_isInt_def check_isIn_def isInt_def
      param_int_def status_category_filter_def truthy_def sortObj_def send_page_def
      find_docs_def limit_docs_def matching_def countDocuments_def plain_collection_def
      js_ceil_div_def without_password_def ok_json_def)

text \<open>
  C5. With \<^verbatim>\<open>limit=0\<close> the news list and the videos list answer 200 with every
  matching item and \<^verbatim>\<open>totalPages\<close> \<^verbatim>\<open>Infinity\<close>; with \<^verbatim>\<open>limit=-2\<close> the news list
  returns two items and \<^verbatim>\<open>totalPages\<close> \<open>-1\<close>. The feedback list rejects such a limit. For
  a positive limit the claim holds on all four lists (\<open>send_page_sound\<close> and the lemmas
  after it).
\<close>

theorem news_list_limit_zero:
  "news_list (plain_collection [a, b, c]) [''limit'' \<mapsto> ''0''] =
     Some (Send (ok_json 200 None
       \<lparr>items = [a, b, c], currentPage = 1, totalPages = Infinity, totalCount = 3\<rparr>))
   \<and> videos_list (plain_collection [a, b, c]) [''limit'' \<mapsto> ''0''] =
     Some (Send (ok_json 200 None
       \<lparr>items = [a, b, c], currentPage = 1, totalPages = Infinity, totalCount = 3\<rparr>))
   \<and> news_list (plain_collection [a, b, c]) [''limit'' \<mapsto> ''-2''] =
     Some (Send (ok_json 200 None
       \<lparr>items = [a, b], currentPage = 1, totalPages = Fin (- 1), totalCount = 3\<rparr>))
   \<and> feedback_list (plain_collection [d, d', d'']) [''limit'' \<mapsto> ''0''] =
     Some (Send (validation_failed [''limit'']))"
  by (simp add: news_list_def videos_list_def feedback_list_def
      validateFeedbackQuery_def check_isInt_def check_isIn_def isInt_def
      param_int_def js_int_def digit_val_def status_category_filter_def truthy_def sortObj_def
      send_page_def find_docs_def limit_docs_def matching_def countDocuments_def
      plain_collection_def js_ceil_div_def numeral_3_eq_3)

section \<open>Rating histogram\<close>

lemma count_rating_other:
  "r \<noteq> Some k \<Longrightarrow> count_rating h r k = h k"
  by (auto simp: count_rating_def split: option.splits)

lemma count_rating_same:
  "k \<noteq> 0 \<Longrightarrow> h k = Some (Fin n) \<Longrightarrow> count_rating h (Some k) k = Some (Fin (n + 1))"
  by (simp add: count_rating_def)

lemma foldl_count_rating:
  "k \<noteq> 0 \<Longrightarrow> h k = Some (Fin n) \<Longrightarrow>
   foldl count_rating h rs k = Some (Fin (n + int (count_list rs (Some k))))"
proof (induction rs arbitrary: h n)
  case Nil
  then show ?case by simp
next
  case (Cons r rs)
  show ?case
  proof (cases "r = Some k")
    case True
    with Cons.prems have "count_rating h r k = Some (Fin (n + 1))"
      by (simp add: count_rating_same)
    with Cons.IH [of "count_rating h r" "n + 1"] Cons.prems(1) True show ?thesis
      by simp
  next
    case False
    with Cons.prems have "count_rating h r k = Some (Fin n)"
      by (simp add: count_rating_other)
    with Cons.IH [of "count_rating h r" n] Cons.prems(1) False show ?thesis
      by simp
  qed
qed

lemma zero_distribution_keys:
  "k \<in> {1, 2, 3, 4, 5} \<Longrightarrow> zero_distribution k = Some (Fin 0)"
  by (auto simp: zero_distribution_def)

lemma ratingDistribution_counts:
  assumes "k \<in> {1, 2, 3, 4, 5}"
  shows "ratingDistribution pushed k =
     Some (Fin (int (count_list (case pushed of None \<Rightarrow> [] | Some rs \<Rightarrow> rs) (Some k))))"
proof (cases pushed)
  case None
  with assms show ?thesis
    by (simp add: ratingDistribution_def zero_distribution_keys)
next
  case (Some rs)
  from assms have "k \<noteq> 0" by auto
  with foldl_count_rating [of k zero_distribution 0 rs] zero_distribution_keys [OF assms] Some
  show ?thesis
    by (simp add: ratingDistribution_def)
qed

text \<open>
  C6. The rating histogram over no feedback is \<^verbatim>\<open>{1:0,2:0,3:0,4:0,5:0}\<close>: its keys are
  exactly 1 to 5 and each value is 0. In every histogram each key from 1 to 5 is present,
  with the number of pushed ratings equal to the key (0 when there is none). Both feedback
  handlers return this histogram, and the zero histogram when they aggregate over no
  document.
\<close>

theorem rating_histogram_dense:
  "ratingDistribution None = zero_distribution
   \<and> ratingDistribution (pushed_ratings []) = zero_distribution
   \<and> dom zero_distribution = {1, 2, 3, 4, 5}
   \<and> (\<forall>k \<in> {1, 2, 3, 4, 5}. zero_distribution k = Some (Fin 0))
   \<and> (\<forall>k \<in> {1, 2, 3, 4, 5}. ratingDistribution pushed k =
        Some (Fin (int (count_list (case pushed of None \<Rightarrow> [] | Some rs \<Rightarrow> rs) (Some k)))))
   \<and> (feedback_list C q = Some (Send r) \<and> data r = Some (pg, st) \<longrightarrow>
        distribution st = ratingDistribution (pushed_ratings (docs C)) \<and>
        (docs C = [] \<longrightarrow> distribution st = zero_distribution))
   \<and> (data (feedback_summary ds startDate) = Some sm \<longrightarrow>
        recent_distribution sm =
          ratingDistribution (pushed_ratings (filter (\<lambda>d. startDate \<le> createdAt d) ds)) \<and>
        (filter (\<lambda>d. startDate \<le> createdAt d) ds = [] \<longrightarrow>
           recent_distribution sm = zero_distribution))"
proof (intro conjI)
  show "ratingDistribution None = zero_distribution"
    by (simp add: ratingDistribution_def)
  show "ratingDistribution (pushed_ratings []) = zero_distribution"
    by (simp add: ratingDistribution_def pushed_ratings_def)
  show "dom zero_distribution = {1, 2, 3, 4, 5}"
    by (auto simp: zero_distribution_def split: if_splits)
  show "\<forall>k \<in> {1, 2, 3, 4, 5}. zero_distribution k = Some (Fin 0)"
    using zero_distribution_keys by blast
  show "\<forall>k \<in> {1, 2, 3, 4, 5}. ratingDistribution pushed k =
        Some (Fin (int (count_list (case pushed of None \<Rightarrow> [] | Some rs \<Rightarrow> rs) (Some k))))"
    using ratingDistribution_counts by blast
  show "feedback_list C q = Some (Send r) \<and> data r = Some (pg, st) \<longrightarrow>
        distribution st = ratingDistribution (pushed_ratings (docs C)) \<and>
        (docs C = [] \<longrightarrow> distribution st = zero_distribution)"
    by (auto simp: feedback_list_def Let_def validation_failed_def ok_json_def
        ratingDistribution_def pushed_ratings_def
        split: if_splits option.splits result.splits)
  show "data (feedback_summary ds startDate) = Some sm \<longrightarrow>
        recent_distribution sm =
          ratingDistribution (pushed_ratings (filter (\<lambda>d. startDate \<le> createdAt d) ds)) \<and>
        (filter (\<lambda>d. startDate \<le> createdAt d) ds = [] \<longrightarrow>
           recent_distribution sm = zero_distribution)"
    by (auto simp: feedback_summary_def Let_def ok_json_def ratingDistribution_def
        pushed_ratings_def)
qed


theorem rating_histogram_dense_witness:
  "zero_distribution 1 = Some (Fin 0)
   \<and> ratingDistribution (Some [Some 5, None, Some 5, Some 2]) 5 = Some (Fin 2)
   \<and> ratingDistribution (Some [Some 5, None, Some 5, Some 2]) 3 = Some (Fin 0)
   \<and> distribution (snd (the (data (ok_json 200 None
        (\<lparr>items = [], currentPage = 1, totalPages = Fin 0, totalCount = 0\<rparr>,
         \<lparr>totalFeedback = 0, distribution = zero_distribution\<rparr>))))) = zero_distribution
   \<and> recent_distribution (the (data (feedback_summary [fb (Some 4) 5] 10))) = zero_distribution"
proof -
  note T = rating_histogram_dense [where pushed = "Some [Some 5, None, Some 5, Some 2]"
      and C = "plain_collection []" and q = Map.empty
      and r = "ok_json 200 None
        (\<lparr>items = [], currentPage = 1, totalPages = Fin 0, totalCount = 0\<rparr>,
         \<lparr>totalFeedback = 0, distribution = zero_distribution\<rparr>)"
      and pg = "\<lparr>items = [], currentPage = 1, totalPages = Fin 0, totalCount = 0\<rparr>"
      and st = "\<lparr>totalFeedback = 0, distribution = zero_distribution\<rparr>"
      and ds = "[fb (Some 4) 5]" and startDate = 10
      and sm = "\<lparr>recent_count = 0, recent_distribution = zero_distribution, overall_count = 1\<rparr>"]
  have h6: "feedback_list (plain_collection []) Map.empty =
      Some (Send (ok_json 200 None
        (\<lparr>items = [], currentPage = 1, totalPages = Fin 0, totalCount = 0\<rparr>,
         \<lparr>totalFeedback = 0, distribution = zero_distribution\<rparr>))) \<and>
      data (ok_json 200 None
        (\<lparr>items = [], currentPage = 1, totalPages = Fin 0, totalCount = 0\<rparr>,
         \<lparr>totalFeedback = 0, distribution = zero_distribution\<rparr>)) =
      Some (\<lparr>items = [], currentPage = 1, totalPages = Fin 0, totalCount = 0\<rparr>,
         \<lparr>totalFeedback = 0, distribution = zero_distribution\<rparr>)"
    by (simp add: feedback_list_def validateFeedbackQuery_def check_isInt_def check_isIn_def
        param_int_def truthy_def sortObj_def send_page_def find_docs_def limit_docs_def
        matching_def countDocuments_def plain_collection_def js_ceil_div_def ok_json_def
        ratingDistribution_def pushed_ratings_def)
  have h7: "data (feedback_summary [fb (Some 4) 5] 10) =
      Some \<lparr>recent_count = 0, recent_distribution = zero_distribution, overall_count = 1\<rparr>"
    by (simp add: feedback_summary_def fb_def ok_json_def ratingDistribution_def
        pushed_ratings_def)
  have empty: "docs (plain_collection [] :: feedback_doc collection) = []"
    by (simp add: plain_collection_def)
  have none: "filter (\<lambda>d. 10 \<le> createdAt d) [fb (Some 4) 5] = []"
    by (simp add: fb_def)
  note c4 = T [THEN conjunct2, THEN conjunct2, THEN conjunct2, THEN conjunct1]
  note c5 = T [THEN conjunct2, THEN conjunct2, THEN conjunct2, THEN conjunct2, THEN conjunct1]
  note c6 = T [THEN conjunct2, THEN conjunct2, THEN conjunct2, THEN conjunct2, THEN conjunct2,
      THEN conjunct1, THEN mp, OF h6, THEN conjunct2, THEN mp, OF empty]
  note c7 = T [THEN conjunct2, THEN conjunct2, THEN conjunct2, THEN conjunct2, THEN conjunct2,
      THEN conjunct2, THEN mp, OF h7, THEN conjunct2, THEN mp, OF none]
  have five: "ratingDistribution (Some [Some 5, None, Some 5, Some 2]) 5 = Some (Fin 2)"
    using c5 by simp
  have three: "ratingDistribution (Some [Some 5, None, Some 5, Some 2]) 3 = Some (Fin 0)"
    using c5 by simp
  have d6: "distribution (snd (the (data (ok_json 200 None
        (\<lparr>items = [], currentPage = 1, totalPages = Fin 0, totalCount = 0\<rparr>,
         \<lparr>totalFeedback = 0, distribution = zero_distribution\<rparr>))))) = zero_distribution"
    using c6 by (simp add: ok_json_def)
  have d7: "recent_distribution (the (data (feedback_summary [fb (Some 4) 5] 10))) =
      zero_distribution"
    using c7 h7 by simp
  have one: "zero_distribution 1 = Some (Fin 0)"
    using c4 by simp
  from one five three d6 d7 show ?thesis
    by (intro conjI)
qed

end
